theory Spec2Isabelle
  imports Main "HOL-Library.Word"
begin

section \<open>The parts of Go's standard library that the configuration code calls\<close>

text \<open>
  \<^verbatim>\<open>config.go\<close> calls \<^verbatim>\<open>net.ParseIP\<close>, \<^verbatim>\<open>net.IP.String\<close>, \<^verbatim>\<open>strings.Contains\<close> and
  \<^verbatim>\<open>regexp.MatchString\<close>. The validation functions below take the two \<^verbatim>\<open>net\<close> functions
  as a parameter (a record \<open>Net\<close>), so every general theorem holds for any behaviour of the
  library. The concrete instance \<open>go_net\<close> follows package \<^verbatim>\<open>net\<close> of the Go release named in
  \<^verbatim>\<open>go.mod\<close> (\<^verbatim>\<open>ip.go\<close> and \<^verbatim>\<open>parse.go\<close> of Go 1.14) and is what the concrete examples evaluate.

  A Go string is a sequence of bytes: \<open>string\<close>, with \<open>length\<close> for \<^verbatim>\<open>len\<close>.
  A \<^verbatim>\<open>net.IP\<close> is a byte slice; \<^verbatim>\<open>nil\<close> is \<open>None\<close>.
\<close>

type_synonym byte = "8 word"
type_synonym IP = "byte list option"

record Net =
  ParseIP :: "string \<Rightarrow> IP"
  IP_String :: "IP \<Rightarrow> string"

definition ord :: "char \<Rightarrow> nat" where
  "ord c = of_char c"

subsection \<open>\<^verbatim>\<open>strings.Contains\<close>\<close>

fun strings_Contains :: "string \<Rightarrow> string \<Rightarrow> bool" where
  "strings_Contains [] substr = (substr = [])"
| "strings_Contains (c # s) substr =
     (take (length substr) (c # s) = substr \<or> strings_Contains s substr)"

subsection \<open>\<^verbatim>\<open>regexp.MustCompile("^[a-zA-Z0-9]{20,128}$").MatchString\<close>\<close>

text \<open>
  Without the multi-line flag \<^verbatim>\<open>^\<close> and \<^verbatim>\<open>$\<close> match only at the two ends of the text, so
  the pattern matches exactly the strings of 20 to 128 bytes that are all ASCII letters or
  digits.
\<close>

definition is_alnum :: "char \<Rightarrow> bool" where
  "is_alnum c =
     ((ord CHR ''a'' \<le> ord c \<and> ord c \<le> ord CHR ''z'') \<or>
      (ord CHR ''A'' \<le> ord c \<and> ord c \<le> ord CHR ''Z'') \<or>
      (ord CHR ''0'' \<le> ord c \<and> ord c \<le> ord CHR ''9''))"

definition MatchString_alnum_20_128 :: "string \<Rightarrow> bool" where
  "MatchString_alnum_20_128 s = (20 \<le> length s \<and> length s \<le> 128 \<and> list_all is_alnum s)"

subsection \<open>\<^verbatim>\<open>net/parse.go\<close>: \<^verbatim>\<open>dtoi\<close> and \<^verbatim>\<open>xtoi\<close>\<close>

definition big :: nat where
  "big = 0xFFFFFF"

text \<open>Both return (number, characters consumed, success).\<close>

fun dtoi_loop :: "string \<Rightarrow> nat \<Rightarrow> nat \<Rightarrow> nat \<times> nat \<times> bool" where
  "dtoi_loop [] n i = (if i = 0 then (0, 0, False) else (n, i, True))"
| "dtoi_loop (c # s) n i =
     (if ord CHR ''0'' \<le> ord c \<and> ord c \<le> ord CHR ''9'' then
        (let n = n * 10 + (ord c - ord CHR ''0'') in
         if n \<ge> big then (big, i, False) else dtoi_loop s n (i + 1))
      else if i = 0 then (0, 0, False) else (n, i, True))"

definition dtoi :: "string \<Rightarrow> nat \<times> nat \<times> bool" where
  "dtoi s = dtoi_loop s 0 0"

definition xdigit :: "char \<Rightarrow> nat option" where
  "xdigit c =
     (if ord CHR ''0'' \<le> ord c \<and> ord c \<le> ord CHR ''9'' then Some (ord c - ord CHR ''0'')
      else if ord CHR ''a'' \<le> ord c \<and> ord c \<le> ord CHR ''f'' then Some (ord c - ord CHR ''a'' + 10)
      else if ord CHR ''A'' \<le> ord c \<and> ord c \<le> ord CHR ''F'' then Some (ord c - ord CHR ''A'' + 10)
      else None)"

fun xtoi_loop :: "string \<Rightarrow> nat \<Rightarrow> nat \<Rightarrow> nat \<times> nat \<times> bool" where
  "xtoi_loop [] n i = (if i = 0 then (0, i, False) else (n, i, True))"
| "xtoi_loop (c # s) n i =
     (case xdigit c of
        Some d \<Rightarrow>
          (let n = n * 16 + d in
           if n \<ge> big then (0, i, False) else xtoi_loop s n (i + 1))
      | None \<Rightarrow> if i = 0 then (0, i, False) else (n, i, True))"

definition xtoi :: "string \<Rightarrow> nat \<times> nat \<times> bool" where
  "xtoi s = xtoi_loop s 0 0"

subsection \<open>\<^verbatim>\<open>net/ip.go\<close>: parsing\<close>

definition IPv4len :: nat where "IPv4len = 4"
definition IPv6len :: nat where "IPv6len = 16"

definition v4InV6Prefix :: "byte list" where
  "v4InV6Prefix = [0, 0, 0, 0, 0, 0, 0, 0, 0, 0, 0xff, 0xff]"

definition net_IPv4 :: "byte \<Rightarrow> byte \<Rightarrow> byte \<Rightarrow> byte \<Rightarrow> byte list" where
  "net_IPv4 a b c d = v4InV6Prefix @ [a, b, c, d]"

text \<open>
  \<^verbatim>\<open>parseIPv4\<close>: four decimal octets separated by dots, nothing after them. The loop
  carries the octet index, the rest of the string and the four bytes read so far.
\<close>

function parseIPv4_loop :: "nat \<Rightarrow> string \<Rightarrow> byte list \<Rightarrow> IP" where
  "parseIPv4_loop i s p =
     (if i < IPv4len then
        (if length s = 0 then None
         else if i > 0 \<and> hd s \<noteq> CHR ''.'' then None
         else
           (let s = (if i > 0 then tl s else s) in
            case dtoi s of (n, c, ok) \<Rightarrow>
              if \<not> ok \<or> n > 0xFF then None
              else parseIPv4_loop (i + 1) (drop c s) (p[i := of_nat n])))
      else if length s \<noteq> 0 then None
      else Some (net_IPv4 (p ! 0) (p ! 1) (p ! 2) (p ! 3)))"
  by pat_completeness auto
termination
  by (relation "measure (\<lambda>(i, s, p). IPv4len - i)") (auto simp: IPv4len_def)

declare parseIPv4_loop.simps [simp del]

definition parseIPv4 :: "string \<Rightarrow> IP" where
  "parseIPv4 s = parseIPv4_loop 0 s [0, 0, 0, 0]"

text \<open>
  \<^verbatim>\<open>parseIPv6\<close>: groups of hexadecimal digits separated by colons, at most one \<^verbatim>\<open>::\<close>, an
  optional dotted quad at the end. \<open>ellipsis\<close> is the position of \<^verbatim>\<open>::\<close> in the address
  (\<open>None\<close> for the source's \<^verbatim>\<open>-1\<close>). The loop returns \<open>None\<close> where the source returns
  \<^verbatim>\<open>nil\<close> from inside it, and the variables at the \<^verbatim>\<open>break\<close> otherwise.
\<close>

function parseIPv6_loop ::
  "nat \<Rightarrow> string \<Rightarrow> nat option \<Rightarrow> byte list \<Rightarrow> (nat \<times> string \<times> nat option \<times> byte list) option" where
  "parseIPv6_loop i s ellipsis ip =
     (if i < IPv6len then
        (case xtoi s of (n, c, ok) \<Rightarrow>
           if \<not> ok \<or> n > 0xFFFF then None
           else if c < length s \<and> s ! c = CHR ''.'' then
             (if ellipsis = None \<and> i \<noteq> IPv6len - IPv4len then None
              else if i + IPv4len > IPv6len then None
              else
                (case parseIPv4 s of
                   None \<Rightarrow> None
                 | Some ip4 \<Rightarrow>
                     Some (i + IPv4len, [], ellipsis,
                           ip[i := ip4 ! 12, i + 1 := ip4 ! 13, i + 2 := ip4 ! 14, i + 3 := ip4 ! 15])))
           else
             (let ip' = ip[i := of_nat (n div 256), i + 1 := of_nat n];
                  i' = i + 2;
                  s' = drop c s
              in
                if length s' = 0 then Some (i', s', ellipsis, ip')
                else if hd s' \<noteq> CHR '':'' \<or> length s' = 1 then None
                else if hd (tl s') = CHR '':'' then
                  (if ellipsis \<noteq> None then None
                   else if length (tl (tl s')) = 0 then Some (i', tl (tl s'), Some i', ip')
                   else parseIPv6_loop i' (tl (tl s')) (Some i') ip')
                else parseIPv6_loop i' (tl s') ellipsis ip'))
      else Some (i, s, ellipsis, ip))"
  by pat_completeness auto
termination
  by (relation "measure (\<lambda>(i, s, e, ip). IPv6len - i)") (auto simp: IPv6len_def)

declare parseIPv6_loop.simps [simp del]

text \<open>
  Expanding the ellipsis: the bytes from \<open>ellipsis\<close> up to \<open>i\<close> move up by \<open>n\<close> (from the
  last one down), then \<open>n\<close> zero bytes are written from \<open>ellipsis\<close> on. Both loops count
  \<open>j\<close> down to \<open>ellipsis\<close>; the models carry \<open>j + 1\<close>, which stays a natural number.
\<close>

function move_up :: "nat \<Rightarrow> nat \<Rightarrow> nat \<Rightarrow> byte list \<Rightarrow> byte list" where
  "move_up n ellipsis j1 ip =
     (if j1 > ellipsis then move_up n ellipsis (j1 - 1) (ip[(j1 - 1) + n := ip ! (j1 - 1)])
      else ip)"
  by pat_completeness auto
termination
  by (relation "measure (\<lambda>(n, e, j1, ip). j1)") auto

declare move_up.simps [simp del]

function zero_fill :: "nat \<Rightarrow> nat \<Rightarrow> byte list \<Rightarrow> byte list" where
  "zero_fill ellipsis j1 ip =
     (if j1 > ellipsis then zero_fill ellipsis (j1 - 1) (ip[j1 - 1 := 0]) else ip)"
  by pat_completeness auto
termination
  by (relation "measure (\<lambda>(e, j1, ip). j1)") auto

declare zero_fill.simps [simp del]

definition expand_ellipsis :: "nat \<Rightarrow> nat \<Rightarrow> byte list \<Rightarrow> byte list" where
  "expand_ellipsis i ellipsis ip =
     (let n = IPv6len - i in zero_fill ellipsis (ellipsis + n) (move_up n ellipsis i ip))"

definition parseIPv6 :: "string \<Rightarrow> IP" where
  "parseIPv6 s =
     (let ip = [0, 0, 0, 0, 0, 0, 0, 0, 0, 0, 0, 0, 0, 0, 0, 0];
          leading = (length s \<ge> 2 \<and> s ! 0 = CHR '':'' \<and> s ! 1 = CHR '':'');
          ellipsis = (if leading then Some 0 else None);
          s = (if leading then drop 2 s else s)
      in
        if leading \<and> length s = 0 then Some ip
        else
          (case parseIPv6_loop 0 s ellipsis ip of
             None \<Rightarrow> None
           | Some (i, s, ellipsis, ip) \<Rightarrow>
               if length s \<noteq> 0 then None
               else if i < IPv6len then
                 (case ellipsis of
                    None \<Rightarrow> None
                  | Some e \<Rightarrow> Some (expand_ellipsis i e ip))
               else if ellipsis \<noteq> None then None
               else Some ip))"

text \<open>\<^verbatim>\<open>ParseIP\<close> dispatches on the first dot or colon of the string.\<close>

fun ParseIP_scan :: "string \<Rightarrow> string \<Rightarrow> IP" where
  "ParseIP_scan s [] = None"
| "ParseIP_scan s (c # r) =
     (if c = CHR ''.'' then parseIPv4 s
      else if c = CHR '':'' then parseIPv6 s
      else ParseIP_scan s r)"

definition net_ParseIP :: "string \<Rightarrow> IP" where
  "net_ParseIP s = ParseIP_scan s s"

subsection \<open>\<^verbatim>\<open>net/ip.go\<close>: printing\<close>

definition hexDigit :: string where
  "hexDigit = ''0123456789abcdef''"

definition isZeros :: "byte list \<Rightarrow> bool" where
  "isZeros p = list_all (\<lambda>b. b = 0) p"

definition To4 :: "byte list \<Rightarrow> IP" where
  "To4 ip =
     (if length ip = IPv4len then Some ip
      else if length ip = IPv6len \<and> isZeros (take 10 ip) \<and> ip ! 10 = 0xff \<and> ip ! 11 = 0xff
      then Some (take 4 (drop 12 ip))
      else None)"

text \<open>\<^verbatim>\<open>ubtoa\<close>: the decimal digits of a byte, without leading zeros.\<close>

definition digit_char :: "nat \<Rightarrow> char" where
  "digit_char d = char_of (d + ord CHR ''0'')"

definition ubtoa :: "byte \<Rightarrow> string" where
  "ubtoa b =
     (let v = unat b in
      if v < 10 then [digit_char v]
      else if v < 100 then [digit_char (v div 10), digit_char (v mod 10)]
      else [digit_char (v div 100), digit_char ((v div 10) mod 10), digit_char (v mod 10)])"

text \<open>
  \<^verbatim>\<open>appendHex\<close>: the hexadecimal digits of a 32-bit value, without leading zeros. The loop
  counts \<open>j\<close> from 7 down to 0; the model carries \<open>j + 1\<close>.
\<close>

function appendHex_loop :: "nat \<Rightarrow> nat \<Rightarrow> string \<Rightarrow> string" where
  "appendHex_loop i j1 dst =
     (if j1 > 0 then
        (let v = i div 2 ^ ((j1 - 1) * 4) in
         appendHex_loop i (j1 - 1) (if v > 0 then dst @ [hexDigit ! (v mod 16)] else dst))
      else dst)"
  by pat_completeness auto
termination
  by (relation "measure (\<lambda>(i, j1, dst). j1)") auto

declare appendHex_loop.simps [simp del]

definition appendHex :: "string \<Rightarrow> nat \<Rightarrow> string" where
  "appendHex dst i = (if i = 0 then dst @ ''0'' else appendHex_loop i 8 dst)"

definition hexString :: "byte list \<Rightarrow> string" where
  "hexString b = concat (map (\<lambda>tn. [hexDigit ! (unat tn div 16), hexDigit ! (unat tn mod 16)]) b)"

text \<open>
  The longest run of zero groups. \<open>zero_run p j\<close> is the inner loop (it advances \<open>j\<close>
  over zero groups); \<open>longest_run\<close> is the outer one, with \<open>(e0, e1)\<close> the best run so far
  as integers, \<open>-1\<close> for none.
\<close>

function zero_run :: "byte list \<Rightarrow> nat \<Rightarrow> nat" where
  "zero_run p j =
     (if j < IPv6len \<and> p ! j = 0 \<and> p ! (j + 1) = 0 then zero_run p (j + 2) else j)"
  by pat_completeness auto
termination
  by (relation "measure (\<lambda>(p, j). IPv6len - j)") (auto simp: IPv6len_def)

declare zero_run.simps [simp del]

function longest_run :: "byte list \<Rightarrow> nat \<Rightarrow> int \<times> int \<Rightarrow> int \<times> int" where
  "longest_run p i (e0, e1) =
     (if i < IPv6len then
        (let j = zero_run p i in
         if j > i \<and> int j - int i > e1 - e0
         then longest_run p (j + 2) (int i, int j)
         else longest_run p (i + 2) (e0, e1))
      else (e0, e1))"
  by pat_completeness auto
termination
  by (relation "measure (\<lambda>(p, i, e). IPv6len - i)") (auto simp: IPv6len_def)

declare longest_run.simps [simp del]

text \<open>
  Printing the groups, with \<^verbatim>\<open>::\<close> in place of the run \<open>[e0, e1)\<close>. The source jumps to
  \<open>e1\<close> at the run and relies on \<open>e1 > e0\<close> there (what \<open>longest_run\<close> returns once runs of
  one group are dropped); the model's loop ends where that fails.
\<close>

function print_groups :: "byte list \<Rightarrow> int \<times> int \<Rightarrow> nat \<Rightarrow> string \<Rightarrow> string" where
  "print_groups p (e0, e1) i b =
     (if i < IPv6len then
        (if int i = e0 then
           (let b = b @ '':'' @ '':''; i' = nat e1 in
            if i' \<ge> IPv6len \<or> i' \<le> i then b
            else print_groups p (e0, e1) (i' + 2)
                   (appendHex b (unat (p ! i') * 256 + unat (p ! (i' + 1)))))
         else
           (let b = (if i > 0 then b @ '':'' else b) in
            print_groups p (e0, e1) (i + 2)
              (appendHex b (unat (p ! i) * 256 + unat (p ! (i + 1))))))
      else b)"
  by pat_completeness auto
termination
  by (relation "measure (\<lambda>(p, e, i, b). IPv6len - i)") (auto simp: IPv6len_def)

declare print_groups.simps [simp del]

definition net_IP_String :: "IP \<Rightarrow> string" where
  "net_IP_String ip =
     (case ip of
        None \<Rightarrow> ''<nil>''
      | Some p \<Rightarrow>
          if length p = 0 then ''<nil>''
          else
            (case To4 p of
               Some p4 \<Rightarrow>
                 ubtoa (p4 ! 0) @ ''.'' @ ubtoa (p4 ! 1) @ ''.'' @ ubtoa (p4 ! 2) @ ''.'' @ ubtoa (p4 ! 3)
             | None \<Rightarrow>
                 if length p \<noteq> IPv6len then ''?'' @ hexString p
                 else
                   (let (e0, e1) = longest_run p 0 (-1, -1);
                        (e0, e1) = (if e1 - e0 \<le> 2 then (-1, -1) else (e0, e1))
                    in print_groups p (e0, e1) 0 [])))"

definition go_net :: Net where
  "go_net = \<lparr> ParseIP = net_ParseIP, IP_String = net_IP_String \<rparr>"


section \<open>Errors\<close>

text \<open>
  Every \<^verbatim>\<open>return fmt.Errorf(...)\<close> of \<^verbatim>\<open>config.go\<close> is one constructor, with the values
  the format string prints as its arguments. An error of a library (\<^verbatim>\<open>os\<close>, \<^verbatim>\<open>yaml\<close>, a
  backend, \<^verbatim>\<open>age\<close>) is its message. A function returning \<^verbatim>\<open>error\<close> returns
  \<open>error option\<close>, with \<open>None\<close> for \<^verbatim>\<open>nil\<close>. \<open>Error\<close> below is the message of an error.
\<close>

datatype error =
    PortNegative
  | PortTooLarge
  | TLSChainRequired
  | TLSChainOpen string
  | TLSChainClose string
  | TLSKeyRequired
  | TLSKeyOpen string
  | TLSKeyClose string
  | SwiftBackendInvalid string string
  | GCSBackendInvalid string string
  | S3BackendInvalid string string
  | NoBackend
  | MaxUploadRAMNotPositive
  | EncryptionKeyDeprecated
  | NoAgeKey
  | AgeIDParse string string
  | AgeSSHParse string string
  | PrometheusUserMissing
  | PrometheusUserPattern
  | PrometheusPassMissing
  | PrometheusPassPattern
  | NoClientFile
  | ClientFileOpen string
  | ClientFileYAML string
  | NoClients
  | ClientInvalid string nat error
  | ClientNameNotUnique nat string
  | ClientPasswordNotUnique nat string
  | ClientReusesIP string nat string
  | ClientNoName
  | ClientInvalidIP
  | ClientNonIPv4 string
  | ClientNonIPv6 string
  | ClientNoAuth
  | ClientPasswordShort
  | ClientPasswordLong

text \<open>\<^verbatim>\<open>%d\<close> of a non-negative integer.\<close>

fun fmt_d :: "nat \<Rightarrow> string" where
  "fmt_d n = (if n < 10 then [digit_char n] else fmt_d (n div 10) @ [digit_char (n mod 10)])"

declare fmt_d.simps [simp del]

fun Error :: "error \<Rightarrow> string" where
  "Error PortNegative = ''TCP Listening Port must be positive number''"
| "Error PortTooLarge = ''TCP Listening Port must be below 65535''"
| "Error TLSChainRequired = ''TLS Chain File is required. eldim works only with HTTPS''"
| "Error (TLSChainOpen err) = ''Failed to open TLS Chain File: '' @ err"
| "Error (TLSChainClose err) = ''Failed to close TLS Chain File: '' @ err"
| "Error TLSKeyRequired = ''TLS Key File is required. eldim works only with HTTPS''"
| "Error (TLSKeyOpen err) = ''Failed to open TLS Key File: '' @ err"
| "Error (TLSKeyClose err) = ''Failed to close TLS Key File: '' @ err"
| "Error (SwiftBackendInvalid name err) =
     ''Failed to validate OpenStack Swift Backend '' @ [CHR 0x27] @ name @ [CHR 0x27] @ '': '' @ err"
| "Error (GCSBackendInvalid name err) =
     ''Failed to validate Google Cloud Storage Backend '' @ [CHR 0x27] @ name @ [CHR 0x27] @ '': '' @ err"
| "Error (S3BackendInvalid name err) =
     ''Failed to validate S3 Backend '' @ [CHR 0x27] @ name @ [CHR 0x27] @ '': '' @ err"
| "Error NoBackend = ''eldim needs at least one backend to operate, 0 found''"
| "Error MaxUploadRAMNotPositive = ''Maximum Upload RAM must be a positive number''"
| "Error EncryptionKeyDeprecated =
     ''Use of encryption key is deprecated since v0.6.0. Please consult the docs''"
| "Error NoAgeKey = ''Please configure at least one age encryption key''"
| "Error (AgeIDParse r err) =
     ''Failed to parse age Identity '' @ [CHR 0x27] @ r @ [CHR 0x27] @ '': '' @ err"
| "Error (AgeSSHParse r err) =
     ''Failed to parse age ssh key Identity '' @ [CHR 0x27] @ r @ [CHR 0x27] @ '': '' @ err"
| "Error PrometheusUserMissing =
     ''You need to set the prometheusauthuser in the configuration file. eldim only works with HTTP Basic Auth for Prometheus Metrics''"
| "Error PrometheusUserPattern =
     ''The prometheusauthuser must contain a-z, A-Z, and 0-9, and must be 20-128 characters long''"
| "Error PrometheusPassMissing =
     ''You need to set the prometheusauthpass in the configuration file. eldim only works with HTTP Basic Auth for Prometheus Metrics''"
| "Error PrometheusPassPattern =
     ''The prometheusauthpass must contain a-z, A-Z, and 0-9, and must be 20-128 characters long''"
| "Error NoClientFile = ''Did not supply a clients config file''"
| "Error (ClientFileOpen err) = ''Failed to open clients file: '' @ err"
| "Error (ClientFileYAML err) = ''Unable to decode client file YAML: '' @ err"
| "Error NoClients = ''No clients have been supplied. eldim will not work''"
| "Error (ClientInvalid name i err) =
     ''Client '' @ [CHR 0x27] @ name @ [CHR 0x27] @ '' ('' @ fmt_d i @ '') is invalid: '' @ Error err"
| "Error (ClientNameNotUnique i name) =
     ''Client '' @ fmt_d i @ '' does not have a unique name: '' @ name"
| "Error (ClientPasswordNotUnique i name) =
     ''Client '' @ fmt_d i @ '' does not have a unique password: '' @ name"
| "Error (ClientReusesIP name i ip) =
     ''Client '' @ [CHR 0x27] @ name @ [CHR 0x27] @ '' ('' @ fmt_d i @ '') reuses an IP Address: '' @ ip"
| "Error ClientNoName = ''Client has no name''"
| "Error ClientInvalidIP = ''Client contains an invalid IP Address''"
| "Error (ClientNonIPv4 ip) = ''Client contains a non-IPv4 in IPv4 list: '' @ ip"
| "Error (ClientNonIPv6 ip) = ''Client contains a non-IPv6 in IPv6 list: '' @ ip"
| "Error ClientNoAuth = ''Client does not have at least one of (password, IPv6, IPv4)''"
| "Error ClientPasswordShort =
     ''Client has a password shorter than 32 characters: 32-128 are acceptable''"
| "Error ClientPasswordLong =
     ''Client has a password longer than 128 characters: 32-128 are acceptable''"

text \<open>
  A \<^verbatim>\<open>for _, x := range xs\<close> loop whose body may return an error: the error of the first
  element whose body returns one.
\<close>

fun for_range :: "('a \<Rightarrow> error option) \<Rightarrow> 'a list \<Rightarrow> error option" where
  "for_range body [] = None"
| "for_range body (x # xs) =
     (case body x of Some err \<Rightarrow> Some err | None \<Rightarrow> for_range body xs)"

section \<open>\<^verbatim>\<open>ClientConfig\<close>\<close>

record ClientConfig =
  ClientName :: string
  IPv4Addr :: "string list"
  IPv6Addr :: "string list"
  Password :: string

text \<open>
  \<^verbatim>\<open>Name\<close> has a pointer receiver and assigns to the field: it returns the name and the
  client as it is after the call.
\<close>

definition Name :: "ClientConfig \<Rightarrow> string \<times> ClientConfig" where
  "Name client =
     (let client = (if ClientName client = [] then client\<lparr>ClientName := ''Unnamed Client''\<rparr>
                    else client)
      in (ClientName client, client))"

text \<open>\<^verbatim>\<open>IPv4\<close> and \<^verbatim>\<open>IPv6\<close> append the parse of every listed string, \<^verbatim>\<open>nil\<close> included.\<close>

definition IPv4 :: "Net \<Rightarrow> ClientConfig \<Rightarrow> IP list" where
  "IPv4 nt client = foldl (\<lambda>ret ip. ret @ [ParseIP nt ip]) [] (IPv4Addr client)"

definition IPv6 :: "Net \<Rightarrow> ClientConfig \<Rightarrow> IP list" where
  "IPv6 nt client = foldl (\<lambda>ret ip. ret @ [ParseIP nt ip]) [] (IPv6Addr client)"

definition ClientConfig_Validate :: "Net \<Rightarrow> ClientConfig \<Rightarrow> error option" where
  "ClientConfig_Validate nt client =
     (if ClientName client = [] then Some ClientNoName
      else
        (case for_range (\<lambda>ip. if ip = None then Some ClientInvalidIP else None)
                (IPv6 nt client @ IPv4 nt client) of
           Some err \<Rightarrow> Some err
         | None \<Rightarrow>
        (case for_range (\<lambda>v4. if \<not> strings_Contains (IP_String nt v4) ''.''
                               then Some (ClientNonIPv4 (IP_String nt v4)) else None)
                (IPv4 nt client) of
           Some err \<Rightarrow> Some err
         | None \<Rightarrow>
        (case for_range (\<lambda>v6. if \<not> strings_Contains (IP_String nt v6) '':'' \<or>
                                  strings_Contains (IP_String nt v6) ''.''
                               then Some (ClientNonIPv6 (IP_String nt v6)) else None)
                (IPv6 nt client) of
           Some err \<Rightarrow> Some err
         | None \<Rightarrow>
             if Password client = [] \<and> length (IPv4 nt client) = 0 \<and> length (IPv6 nt client) = 0
             then Some ClientNoAuth
             else if length (Password client) < 32 \<and> Password client \<noteq> []
             then Some ClientPasswordShort
             else if length (Password client) > 128
             then Some ClientPasswordLong
             else None))))"

section \<open>\<^verbatim>\<open>Config\<close>\<close>

text \<open>
  The three backend configuration types live in packages \<^verbatim>\<open>internal/swift\<close>,
  \<^verbatim>\<open>internal/gcs\<close> and \<^verbatim>\<open>internal/s3\<close>; \<^verbatim>\<open>Config\<close> only stores lists of them and calls
  their \<^verbatim>\<open>Validate\<close> and \<^verbatim>\<open>Name\<close> methods. They are type parameters here, and the two
  methods are parameters of the environment.
\<close>

record Encryption_t =
  AgeID :: "string list"
  AgeSSH :: "string list"

record ('sw, 'gcs, 's3) Config =
  ListenPort :: int
  ServerTokens :: bool
  MaxUploadRAM :: int
  TLSChainPath :: string
  TLSKeyPath :: string
  SwiftBackends :: "'sw list"
  GCSBackends :: "'gcs list"
  S3Backends :: "'s3 list"
  ClientFile :: string
  EncryptionKey :: string
  Encryption :: Encryption_t
  PrometheusEnabled :: bool
  PrometheusAuthUser :: string
  PrometheusAuthPass :: string

text \<open>
  What \<^verbatim>\<open>Config.Validate\<close> reads from outside the configuration value: the file system
  (\<^verbatim>\<open>os.Open\<close>, \<^verbatim>\<open>File.Close\<close>, \<^verbatim>\<open>ioutil.ReadFile\<close>, each by path), the YAML decoder applied to
  the bytes of the client file, the backends' methods, the two recipient parsers of
  \<^verbatim>\<open>age\<close> (only their error is used) and package \<^verbatim>\<open>net\<close>. A library error is \<open>Some\<close> of its
  message, or \<open>Inl\<close> of it where the call also returns a value.
\<close>

record ('sw, 'gcs, 's3) World =
  os_Open :: "string \<Rightarrow> string option"
  File_Close :: "string \<Rightarrow> string option"
  ioutil_ReadFile :: "string \<Rightarrow> string + string"
  yaml_Unmarshal :: "string \<Rightarrow> string + ClientConfig list"
  swift_Validate :: "'sw \<Rightarrow> string option"
  swift_Name :: "'sw \<Rightarrow> string"
  gcs_Validate :: "'gcs \<Rightarrow> string option"
  gcs_Name :: "'gcs \<Rightarrow> string"
  s3_Validate :: "'s3 \<Rightarrow> string option"
  s3_Name :: "'s3 \<Rightarrow> string"
  age_ParseX25519Recipient :: "string \<Rightarrow> string option"
  agessh_ParseRecipient :: "string \<Rightarrow> string option"
  net :: Net

text \<open>
  The inner loop of the duplicate check, over \<^verbatim>\<open>append(c.IPv6(), c.IPv4()...)\<close>: it returns
  the error, or \<^verbatim>\<open>ipSet\<close> as the loop leaves it. The maps \<^verbatim>\<open>map[string]bool\<close> only ever
  store \<^verbatim>\<open>true\<close> and are read with the missing key as \<^verbatim>\<open>false\<close>: they are sets of strings.
\<close>

fun check_IPs :: "Net \<Rightarrow> string \<Rightarrow> nat \<Rightarrow> string set \<Rightarrow> IP list \<Rightarrow> error + string set" where
  "check_IPs nt name i ipSet [] = Inr ipSet"
| "check_IPs nt name i ipSet (ip # ips) =
     (if IP_String nt ip \<in> ipSet then Inl (ClientReusesIP name (i + 1) (IP_String nt ip))
      else check_IPs nt name i (insert (IP_String nt ip) ipSet) ips)"

text \<open>
  The loop \<^verbatim>\<open>for i, c := range clients\<close> of the duplicate check, with its three sets. \<open>c\<close>
  is the loop's copy of the entry, so the assignment inside \<^verbatim>\<open>c.Name()\<close> changes the copy:
  \<open>snd (Name c0)\<close> is the copy after the first call, and the later calls read it. The
  password block \<^verbatim>\<open>if c.Password != "" { if passSet[c.Password] { return ... }; ... }\<close> is
  the return under both conditions, then the insertion under the first.
\<close>

fun check_duplicates ::
  "Net \<Rightarrow> nat \<Rightarrow> string set \<Rightarrow> string set \<Rightarrow> string set \<Rightarrow> ClientConfig list \<Rightarrow> error option" where
  "check_duplicates nt i nameSet passSet ipSet [] = None"
| "check_duplicates nt i nameSet passSet ipSet (c0 # cs) =
     (let c = snd (Name c0) in
      if fst (Name c0) \<in> nameSet then Some (ClientNameNotUnique (i + 1) (fst (Name c)))
      else
        (let nameSet = insert (fst (Name c)) nameSet in
         if Password c \<noteq> [] \<and> Password c \<in> passSet
         then Some (ClientPasswordNotUnique (i + 1) (fst (Name c)))
         else
           (let passSet = (if Password c \<noteq> [] then insert (Password c) passSet else passSet) in
            case check_IPs nt (fst (Name c)) i ipSet (IPv6 nt c @ IPv4 nt c) of
              Inl err \<Rightarrow> Some err
            | Inr ipSet \<Rightarrow> check_duplicates nt (i + 1) nameSet passSet ipSet cs)))"

text \<open>
  The loops of \<^verbatim>\<open>Config.Validate\<close> that return from inside their body, in the order of the
  source: the three backend loops, the two recipient loops and the loop that validates
  every client entry (\<^verbatim>\<open>for i, c := range clients\<close>, with the index).
\<close>

definition validate_SwiftBackends :: "('sw, 'gcs, 's3) World \<Rightarrow> 'sw list \<Rightarrow> error option" where
  "validate_SwiftBackends w bs =
     for_range (\<lambda>b. case swift_Validate w b of
                       Some err \<Rightarrow> Some (SwiftBackendInvalid (swift_Name w b) err)
                     | None \<Rightarrow> None) bs"

definition validate_GCSBackends :: "('sw, 'gcs, 's3) World \<Rightarrow> 'gcs list \<Rightarrow> error option" where
  "validate_GCSBackends w bs =
     for_range (\<lambda>b. case gcs_Validate w b of
                       Some err \<Rightarrow> Some (GCSBackendInvalid (gcs_Name w b) err)
                     | None \<Rightarrow> None) bs"

definition validate_S3Backends :: "('sw, 'gcs, 's3) World \<Rightarrow> 's3 list \<Rightarrow> error option" where
  "validate_S3Backends w bs =
     for_range (\<lambda>b. case s3_Validate w b of
                       Some err \<Rightarrow> Some (S3BackendInvalid (s3_Name w b) err)
                     | None \<Rightarrow> None) bs"

definition parse_AgeID :: "('sw, 'gcs, 's3) World \<Rightarrow> string list \<Rightarrow> error option" where
  "parse_AgeID w rs =
     for_range (\<lambda>r. case age_ParseX25519Recipient w r of
                       Some err \<Rightarrow> Some (AgeIDParse r err)
                     | None \<Rightarrow> None) rs"

definition parse_AgeSSH :: "('sw, 'gcs, 's3) World \<Rightarrow> string list \<Rightarrow> error option" where
  "parse_AgeSSH w rs =
     for_range (\<lambda>r. case agessh_ParseRecipient w r of
                       Some err \<Rightarrow> Some (AgeSSHParse r err)
                     | None \<Rightarrow> None) rs"

definition validate_clients :: "Net \<Rightarrow> ClientConfig list \<Rightarrow> error option" where
  "validate_clients nt clients =
     for_range (\<lambda>(i, c). case ClientConfig_Validate nt c of
                            Some err \<Rightarrow> Some (ClientInvalid (fst (Name c)) (i + 1) err)
                          | None \<Rightarrow> None)
       (enumerate 0 clients)"

text \<open>The block \<^verbatim>\<open>if conf.PrometheusEnabled == true { ... }\<close>.\<close>

definition validate_Prometheus :: "('sw, 'gcs, 's3) Config \<Rightarrow> error option" where
  "validate_Prometheus conf =
     (if PrometheusEnabled conf = True then
        (if PrometheusAuthUser conf = [] then Some PrometheusUserMissing
         else if \<not> MatchString_alnum_20_128 (PrometheusAuthUser conf)
         then Some PrometheusUserPattern
         else if PrometheusAuthPass conf = [] then Some PrometheusPassMissing
         else if \<not> MatchString_alnum_20_128 (PrometheusAuthPass conf)
         then Some PrometheusPassPattern
         else None)
      else None)"

definition Config_Validate :: "('sw, 'gcs, 's3) World \<Rightarrow> ('sw, 'gcs, 's3) Config \<Rightarrow> error option" where
  "Config_Validate w conf =
     (if ListenPort conf < 0 then Some PortNegative
      else if ListenPort conf > 65535 then Some PortTooLarge
      else if TLSChainPath conf = [] then Some TLSChainRequired
      else
        (case os_Open w (TLSChainPath conf) of
           Some err \<Rightarrow> Some (TLSChainOpen err)
         | None \<Rightarrow>
        (case File_Close w (TLSChainPath conf) of
           Some err \<Rightarrow> Some (TLSChainClose err)
         | None \<Rightarrow>
        if TLSKeyPath conf = [] then Some TLSKeyRequired
        else
        (case os_Open w (TLSKeyPath conf) of
           Some err \<Rightarrow> Some (TLSKeyOpen err)
         | None \<Rightarrow>
        (case File_Close w (TLSKeyPath conf) of
           Some err \<Rightarrow> Some (TLSKeyClose err)
         | None \<Rightarrow>
        (case validate_SwiftBackends w (SwiftBackends conf) of
           Some err \<Rightarrow> Some err
         | None \<Rightarrow>
        (case validate_GCSBackends w (GCSBackends conf) of
           Some err \<Rightarrow> Some err
         | None \<Rightarrow>
        (case validate_S3Backends w (S3Backends conf) of
           Some err \<Rightarrow> Some err
         | None \<Rightarrow>
        if length (SwiftBackends conf) + length (GCSBackends conf) + length (S3Backends conf) = 0
        then Some NoBackend
        else if MaxUploadRAM conf \<le> 0 then Some MaxUploadRAMNotPositive
        else if EncryptionKey conf \<noteq> [] then Some EncryptionKeyDeprecated
        else if length (AgeID (Encryption conf)) + length (AgeSSH (Encryption conf)) = 0
        then Some NoAgeKey
        else
        (case parse_AgeID w (AgeID (Encryption conf)) of
           Some err \<Rightarrow> Some err
         | None \<Rightarrow>
        (case parse_AgeSSH w (AgeSSH (Encryption conf)) of
           Some err \<Rightarrow> Some err
         | None \<Rightarrow>
        (case validate_Prometheus conf of
           Some err \<Rightarrow> Some err
         | None \<Rightarrow>
        if ClientFile conf = [] then Some NoClientFile
        else
        (case ioutil_ReadFile w (ClientFile conf) of
           Inl err \<Rightarrow> Some (ClientFileOpen err)
         | Inr fc \<Rightarrow>
        (case yaml_Unmarshal w fc of
           Inl err \<Rightarrow> Some (ClientFileYAML err)
         | Inr clients \<Rightarrow>
        if length clients = 0 then Some NoClients
        else
        (case validate_clients (net w) clients of
           Some err \<Rightarrow> Some err
         | None \<Rightarrow> check_duplicates (net w) 0 {} {} {} clients))))))))))))))"

section \<open>The properties, as the specification words them\<close>

subsection \<open>One client entry\<close>

text \<open>
  The four conditions the specification lists for a valid client entry: a name, a password
  that is empty or of 32 to 128 bytes, at least one of password and addresses, and
  addresses that all parse.
\<close>

definition addresses_parse :: "Net \<Rightarrow> ClientConfig \<Rightarrow> bool" where
  "addresses_parse nt client =
     list_all (\<lambda>s. ParseIP nt s \<noteq> None) (IPv6Addr client @ IPv4Addr client)"

definition spec_client_valid :: "Net \<Rightarrow> ClientConfig \<Rightarrow> bool" where
  "spec_client_valid nt client =
     (ClientName client \<noteq> [] \<and>
      (Password client = [] \<or>
       (32 \<le> length (Password client) \<and> length (Password client) \<le> 128)) \<and>
      (Password client \<noteq> [] \<or> IPv4Addr client \<noteq> [] \<or> IPv6Addr client \<noteq> []) \<and>
      addresses_parse nt client)"

text \<open>
  What the code checks beyond them: the printed form of every address of the IPv4 list has
  a dot, and the printed form of every address of the IPv6 list has a colon and no dot.
\<close>

definition families_match :: "Net \<Rightarrow> ClientConfig \<Rightarrow> bool" where
  "families_match nt client =
     (list_all (\<lambda>s. strings_Contains (IP_String nt (ParseIP nt s)) ''.'') (IPv4Addr client) \<and>
      list_all (\<lambda>s. strings_Contains (IP_String nt (ParseIP nt s)) '':'' \<and>
                     \<not> strings_Contains (IP_String nt (ParseIP nt s)) ''.'') (IPv6Addr client))"

subsection \<open>The roster\<close>

text \<open>
  The printed forms of the addresses of one entry, in the order the duplicate check visits
  them (IPv6 list, then IPv4 list), and of the whole roster, entry after entry; the
  non-empty passwords of the roster; and whether two different entries of the roster
  have an address in common.
\<close>

definition client_addresses :: "Net \<Rightarrow> ClientConfig \<Rightarrow> string list" where
  "client_addresses nt c = map (IP_String nt) (IPv6 nt c @ IPv4 nt c)"

definition roster_addresses :: "Net \<Rightarrow> ClientConfig list \<Rightarrow> string list" where
  "roster_addresses nt clients = concat (map (client_addresses nt) clients)"

definition passwords :: "ClientConfig list \<Rightarrow> string list" where
  "passwords clients = filter (\<lambda>p. p \<noteq> []) (map Password clients)"

definition shared_IP :: "Net \<Rightarrow> ClientConfig \<Rightarrow> ClientConfig \<Rightarrow> bool" where
  "shared_IP nt c d = list_ex (\<lambda>a. a \<in> set (client_addresses nt d)) (client_addresses nt c)"

fun shares_IP :: "Net \<Rightarrow> ClientConfig list \<Rightarrow> bool" where
  "shares_IP nt [] = False"
| "shares_IP nt (c # cs) = (list_ex (shared_IP nt c) cs \<or> shares_IP nt cs)"

subsection \<open>The configuration\<close>

text \<open>
  The conditions of the specification on the fields of the configuration, each as a
  predicate, and the nine checks in the order the specification documents them. A check
  is \<open>None\<close> when it passes and the error of the code otherwise; \<open>first_error\<close> is the first
  error of a list of checks.
\<close>

definition port_ok :: "('sw, 'gcs, 's3) Config \<Rightarrow> bool" where
  "port_ok conf = (0 \<le> ListenPort conf \<and> ListenPort conf \<le> 65535)"

definition file_ok :: "('sw, 'gcs, 's3) World \<Rightarrow> string \<Rightarrow> bool" where
  "file_ok w path = (path \<noteq> [] \<and> os_Open w path = None \<and> File_Close w path = None)"

definition tls_ok :: "('sw, 'gcs, 's3) World \<Rightarrow> ('sw, 'gcs, 's3) Config \<Rightarrow> bool" where
  "tls_ok w conf = (file_ok w (TLSChainPath conf) \<and> file_ok w (TLSKeyPath conf))"

definition backends_ok :: "('sw, 'gcs, 's3) World \<Rightarrow> ('sw, 'gcs, 's3) Config \<Rightarrow> bool" where
  "backends_ok w conf =
     (list_all (\<lambda>b. swift_Validate w b = None) (SwiftBackends conf) \<and>
      list_all (\<lambda>b. gcs_Validate w b = None) (GCSBackends conf) \<and>
      list_all (\<lambda>b. s3_Validate w b = None) (S3Backends conf))"

definition no_backend :: "('sw, 'gcs, 's3) Config \<Rightarrow> bool" where
  "no_backend conf = (SwiftBackends conf = [] \<and> GCSBackends conf = [] \<and> S3Backends conf = [])"

definition upload_ram_ok :: "('sw, 'gcs, 's3) Config \<Rightarrow> bool" where
  "upload_ram_ok conf = (0 < MaxUploadRAM conf)"

definition no_recipient :: "('sw, 'gcs, 's3) Config \<Rightarrow> bool" where
  "no_recipient conf = (AgeID (Encryption conf) = [] \<and> AgeSSH (Encryption conf) = [])"

definition recipients_parse :: "('sw, 'gcs, 's3) World \<Rightarrow> ('sw, 'gcs, 's3) Config \<Rightarrow> bool" where
  "recipients_parse w conf =
     (list_all (\<lambda>r. age_ParseX25519Recipient w r = None) (AgeID (Encryption conf)) \<and>
      list_all (\<lambda>r. agessh_ParseRecipient w r = None) (AgeSSH (Encryption conf)))"

definition metrics_ok :: "('sw, 'gcs, 's3) Config \<Rightarrow> bool" where
  "metrics_ok conf =
     (if PrometheusEnabled conf
      then MatchString_alnum_20_128 (PrometheusAuthUser conf) \<and>
           MatchString_alnum_20_128 (PrometheusAuthPass conf)
      else True)"

fun first_error :: "error option list \<Rightarrow> error option" where
  "first_error [] = None"
| "first_error (None # checks) = first_error checks"
| "first_error (Some err # checks) = Some err"

definition check_port :: "('sw, 'gcs, 's3) Config \<Rightarrow> error option" where
  "check_port conf =
     (if ListenPort conf < 0 then Some PortNegative
      else if ListenPort conf > 65535 then Some PortTooLarge
      else None)"

definition check_file ::
  "('sw, 'gcs, 's3) World \<Rightarrow> string \<Rightarrow> error \<Rightarrow> (string \<Rightarrow> error) \<Rightarrow> (string \<Rightarrow> error) \<Rightarrow> error option" where
  "check_file w path required open_failed close_failed =
     (if path = [] then Some required
      else case os_Open w path of
        Some err \<Rightarrow> Some (open_failed err)
      | None \<Rightarrow>
          (case File_Close w path of
             Some err \<Rightarrow> Some (close_failed err)
           | None \<Rightarrow> None))"

definition check_TLS :: "('sw, 'gcs, 's3) World \<Rightarrow> ('sw, 'gcs, 's3) Config \<Rightarrow> error option" where
  "check_TLS w conf =
     first_error
       [check_file w (TLSChainPath conf) TLSChainRequired TLSChainOpen TLSChainClose,
        check_file w (TLSKeyPath conf) TLSKeyRequired TLSKeyOpen TLSKeyClose]"

definition check_backends :: "('sw, 'gcs, 's3) World \<Rightarrow> ('sw, 'gcs, 's3) Config \<Rightarrow> error option" where
  "check_backends w conf =
     first_error
       [validate_SwiftBackends w (SwiftBackends conf),
        validate_GCSBackends w (GCSBackends conf),
        validate_S3Backends w (S3Backends conf)]"

definition check_some_backend :: "('sw, 'gcs, 's3) Config \<Rightarrow> error option" where
  "check_some_backend conf = (if no_backend conf then Some NoBackend else None)"

definition check_MaxUploadRAM :: "('sw, 'gcs, 's3) Config \<Rightarrow> error option" where
  "check_MaxUploadRAM conf =
     (if upload_ram_ok conf then None else Some MaxUploadRAMNotPositive)"

definition check_EncryptionKey :: "('sw, 'gcs, 's3) Config \<Rightarrow> error option" where
  "check_EncryptionKey conf =
     (if EncryptionKey conf = [] then None else Some EncryptionKeyDeprecated)"

definition check_recipients :: "('sw, 'gcs, 's3) World \<Rightarrow> ('sw, 'gcs, 's3) Config \<Rightarrow> error option" where
  "check_recipients w conf =
     (if no_recipient conf then Some NoAgeKey
      else first_error
        [parse_AgeID w (AgeID (Encryption conf)), parse_AgeSSH w (AgeSSH (Encryption conf))])"

definition check_metrics :: "('sw, 'gcs, 's3) Config \<Rightarrow> error option" where
  "check_metrics conf = (if PrometheusEnabled conf then validate_Prometheus conf else None)"

definition check_roster_entries :: "Net \<Rightarrow> ClientConfig list \<Rightarrow> error option" where
  "check_roster_entries nt clients =
     (if clients = [] then Some NoClients
      else first_error [validate_clients nt clients, check_duplicates nt 0 {} {} {} clients])"

definition check_roster :: "('sw, 'gcs, 's3) World \<Rightarrow> ('sw, 'gcs, 's3) Config \<Rightarrow> error option" where
  "check_roster w conf =
     (if ClientFile conf = [] then Some NoClientFile
      else case ioutil_ReadFile w (ClientFile conf) of
        Inl err \<Rightarrow> Some (ClientFileOpen err)
      | Inr fc \<Rightarrow>
          (case yaml_Unmarshal w fc of
             Inl err \<Rightarrow> Some (ClientFileYAML err)
           | Inr clients \<Rightarrow> check_roster_entries (net w) clients))"

definition documented_checks ::
  "('sw, 'gcs, 's3) World \<Rightarrow> ('sw, 'gcs, 's3) Config \<Rightarrow> error option list" where
  "documented_checks w conf =
     [check_port conf, check_TLS w conf, check_backends w conf, check_some_backend conf,
      check_MaxUploadRAM conf, check_EncryptionKey conf, check_recipients w conf,
      check_metrics conf, check_roster w conf]"

text \<open>
  Every check before the count of the backends passes; every check before the deprecated
  key; every check before the recipients; every check before the metrics settings; every
  check before the roster.
\<close>

definition before_backend_count :: "('sw, 'gcs, 's3) World \<Rightarrow> ('sw, 'gcs, 's3) Config \<Rightarrow> bool" where
  "before_backend_count w conf = (port_ok conf \<and> tls_ok w conf \<and> backends_ok w conf)"

definition before_EncryptionKey :: "('sw, 'gcs, 's3) World \<Rightarrow> ('sw, 'gcs, 's3) Config \<Rightarrow> bool" where
  "before_EncryptionKey w conf =
     (before_backend_count w conf \<and> \<not> no_backend conf \<and> upload_ram_ok conf)"

definition before_recipients :: "('sw, 'gcs, 's3) World \<Rightarrow> ('sw, 'gcs, 's3) Config \<Rightarrow> bool" where
  "before_recipients w conf = (before_EncryptionKey w conf \<and> EncryptionKey conf = [])"

definition before_metrics :: "('sw, 'gcs, 's3) World \<Rightarrow> ('sw, 'gcs, 's3) Config \<Rightarrow> bool" where
  "before_metrics w conf =
     (before_recipients w conf \<and> \<not> no_recipient conf \<and> recipients_parse w conf)"

definition before_roster :: "('sw, 'gcs, 's3) World \<Rightarrow> ('sw, 'gcs, 's3) Config \<Rightarrow> bool" where
  "before_roster w conf = (before_metrics w conf \<and> metrics_ok conf)"

section \<open>Example data\<close>

text \<open>
  An environment in which the two TLS files and the client file exist, the client file
  decodes to a given roster, a backend is valid when it has a name, and a recipient parses
  when it has the prefix of its kind; a configuration that is valid in it; and five
  rosters: two valid entries; one entry that lists an address twice; two entries with the
  same name; two entries that list the same address; one entry that lists the same
  address in two spellings.
\<close>

definition example_roster :: "ClientConfig list" where
  "example_roster =
     [\<lparr>ClientName = ''web1'', IPv4Addr = [''10.0.0.1''], IPv6Addr = [''2001:db8::68''],
       Password = []\<rparr>,
      \<lparr>ClientName = ''web2'', IPv4Addr = [''10.0.0.2''], IPv6Addr = [],
       Password = ''correct-horse-battery-staple-001''\<rparr>]"

definition example_World :: "ClientConfig list \<Rightarrow> (string, string, string) World" where
  "example_World roster =
     \<lparr>os_Open = (\<lambda>path. if path = ''/etc/eldim/chain.pem'' \<or> path = ''/etc/eldim/key.pem''
                        then None else Some ''no such file or directory''),
      File_Close = (\<lambda>path. None),
      ioutil_ReadFile = (\<lambda>path. if path = ''/etc/eldim/clients.yml'' then Inr ''clients''
                                else Inl ''no such file or directory''),
      yaml_Unmarshal = (\<lambda>fc. Inr roster),
      swift_Validate = (\<lambda>b. if b = [] then Some ''no name'' else None),
      swift_Name = (\<lambda>b. b),
      gcs_Validate = (\<lambda>b. if b = [] then Some ''no name'' else None),
      gcs_Name = (\<lambda>b. b),
      s3_Validate = (\<lambda>b. if b = [] then Some ''no name'' else None),
      s3_Name = (\<lambda>b. b),
      age_ParseX25519Recipient = (\<lambda>r. if take 4 r = ''age1'' then None
                                         else Some ''malformed recipient''),
      agessh_ParseRecipient = (\<lambda>r. if take 4 r = ''ssh-'' then None
                                      else Some ''malformed SSH recipient''),
      net = go_net\<rparr>"

definition example_Config :: "(string, string, string) Config" where
  "example_Config =
     \<lparr>ListenPort = 8443, ServerTokens = False, MaxUploadRAM = 100,
      TLSChainPath = ''/etc/eldim/chain.pem'', TLSKeyPath = ''/etc/eldim/key.pem'',
      SwiftBackends = [''ovh''], GCSBackends = [], S3Backends = [''minio''],
      ClientFile = ''/etc/eldim/clients.yml'', EncryptionKey = [],
      Encryption = \<lparr>AgeID = [''age1recipient''], AgeSSH = [''ssh-ed25519 AAAA'']\<rparr>,
      PrometheusEnabled = True,
      PrometheusAuthUser = ''abcdefghijklmnopqrstuvwx'',
      PrometheusAuthPass = ''ABCDEFGHIJKL012345678901''\<rparr>"

definition reuse_roster :: "ClientConfig list" where
  "reuse_roster =
     [\<lparr>ClientName = ''web1'', IPv4Addr = [''10.0.0.1'', ''10.0.0.1''], IPv6Addr = [],
       Password = []\<rparr>]"

definition same_name_roster :: "ClientConfig list" where
  "same_name_roster =
     [\<lparr>ClientName = ''web1'', IPv4Addr = [''10.0.0.1''], IPv6Addr = [], Password = []\<rparr>,
      \<lparr>ClientName = ''web1'', IPv4Addr = [''10.0.0.2''], IPv6Addr = [], Password = []\<rparr>]"

definition shared_address_roster :: "ClientConfig list" where
  "shared_address_roster =
     [\<lparr>ClientName = ''web1'', IPv4Addr = [''10.0.0.1''], IPv6Addr = [], Password = []\<rparr>,
      \<lparr>ClientName = ''web2'', IPv4Addr = [''10.0.0.2'', ''10.0.0.1''], IPv6Addr = [],
       Password = []\<rparr>]"

definition spelled_twice_roster :: "ClientConfig list" where
  "spelled_twice_roster =
     [\<lparr>ClientName = ''web1'', IPv4Addr = [], IPv6Addr = [''::1'', ''0:0:0:0:0:0:0:1''],
       Password = []\<rparr>]"

section \<open>Proofs\<close>

subsection \<open>Evaluating package \<^verbatim>\<open>net\<close>\<close>

lemmas net_defs =
  dtoi_def big_def ord_def xtoi_def xdigit_def IPv4len_def IPv6len_def net_IPv4_def
  v4InV6Prefix_def parseIPv4_def parseIPv4_loop.simps parseIPv6_loop.simps parseIPv6_def
  expand_ellipsis_def move_up.simps zero_fill.simps net_ParseIP_def hexDigit_def isZeros_def
  To4_def digit_char_def ubtoa_def appendHex_def appendHex_loop.simps hexString_def
  zero_run.simps longest_run.simps print_groups.simps net_IP_String_def char_of_eq_iff

lemma go_net_sel: "ParseIP go_net = net_ParseIP" "IP_String go_net = net_IP_String"
  by (simp_all add: go_net_def)

lemma ParseIP_v6_loopback:
  "net_ParseIP ''::1'' = Some [0, 0, 0, 0, 0, 0, 0, 0, 0, 0, 0, 0, 0, 0, 0, 1]"
  by (simp add: net_defs)

lemma ParseIP_v6_loopback_long:
  "net_ParseIP ''0:0:0:0:0:0:0:1'' = Some [0, 0, 0, 0, 0, 0, 0, 0, 0, 0, 0, 0, 0, 0, 0, 1]"
  by (simp add: net_defs)

lemma String_v6_loopback:
  "net_IP_String (Some [0, 0, 0, 0, 0, 0, 0, 0, 0, 0, 0, 0, 0, 0, 0, 1]) = ''::1''"
  by (simp add: net_defs)

lemma ParseIP_v4_private:
  "net_ParseIP ''10.0.0.1'' = Some [0, 0, 0, 0, 0, 0, 0, 0, 0, 0, 0xff, 0xff, 10, 0, 0, 1]"
  by (simp add: net_defs)

lemma String_v4_private:
  "net_IP_String (Some [0, 0, 0, 0, 0, 0, 0, 0, 0, 0, 0xff, 0xff, 10, 0, 0, 1]) = ''10.0.0.1''"
  by (simp add: net_defs)

lemma ParseIP_v4_other:
  "net_ParseIP ''10.0.0.2'' = Some [0, 0, 0, 0, 0, 0, 0, 0, 0, 0, 0xff, 0xff, 10, 0, 0, 2]"
  by (simp add: net_defs)

lemma String_v4_other:
  "net_IP_String (Some [0, 0, 0, 0, 0, 0, 0, 0, 0, 0, 0xff, 0xff, 10, 0, 0, 2]) = ''10.0.0.2''"
  by (simp add: net_defs)

lemma ParseIP_v6_doc:
  "net_ParseIP ''2001:db8::68'' =
     Some [0x20, 0x01, 0x0d, 0xb8, 0, 0, 0, 0, 0, 0, 0, 0, 0, 0, 0, 0x68]"
  by (simp add: net_defs)

lemma String_v6_doc:
  "net_IP_String (Some [0x20, 0x01, 0x0d, 0xb8, 0, 0, 0, 0, 0, 0, 0, 0, 0, 0, 0, 0x68]) =
     ''2001:db8::68''"
  by (simp add: net_defs)

lemmas go_net_examples =
  go_net_sel ParseIP_v6_loopback ParseIP_v6_loopback_long String_v6_loopback
  ParseIP_v4_private String_v4_private ParseIP_v4_other String_v4_other
  ParseIP_v6_doc String_v6_doc

subsection \<open>Loops and accessors\<close>

lemma for_range_None_iff: "for_range body xs = None \<longleftrightarrow> list_all (\<lambda>x. body x = None) xs"
  by (induction xs) (auto split: option.splits)

lemma for_range_Some: "for_range body xs = Some e \<Longrightarrow> \<exists>x \<in> set xs. body x = Some e"
  by (induction xs) (auto split: option.splits)

lemma case_option_None_iff:
  "((case x of Some err \<Rightarrow> Some err | None \<Rightarrow> y) = None) = (x = None \<and> y = None)"
  by (cases x) auto

lemma foldl_append_map: "foldl (\<lambda>ret x. ret @ [f x]) acc xs = acc @ map f xs"
  by (induction xs arbitrary: acc) auto

lemma IPv4_map: "IPv4 nt client = map (ParseIP nt) (IPv4Addr client)"
  by (simp add: IPv4_def foldl_append_map)

lemma IPv6_map: "IPv6 nt client = map (ParseIP nt) (IPv6Addr client)"
  by (simp add: IPv6_def foldl_append_map)

lemma Name_fst:
  "fst (Name c) = (if ClientName c = [] then ''Unnamed Client'' else ClientName c)"
  by (simp add: Name_def)

lemma Name_snd:
  "snd (Name c) = (if ClientName c = [] then c\<lparr>ClientName := ''Unnamed Client''\<rparr> else c)"
  by (simp add: Name_def)

text \<open>A second call of \<^verbatim>\<open>Name\<close> returns the same name and changes nothing.\<close>

lemma Name_again: "Name (snd (Name c)) = (fst (Name c), snd (Name c))"
  by (simp add: Name_def)

subsection \<open>\<^verbatim>\<open>ClientConfig.Validate\<close>\<close>

lemma ClientConfig_Validate_None_iff:
  "ClientConfig_Validate nt client = None \<longleftrightarrow>
     spec_client_valid nt client \<and> families_match nt client"
proof -
  have nil: "for_range (\<lambda>ip. if ip = None then Some ClientInvalidIP else None)
               (IPv6 nt client @ IPv4 nt client) = None
      \<longleftrightarrow> addresses_parse nt client"
    by (simp add: for_range_None_iff IPv4_map IPv6_map addresses_parse_def list.pred_map comp_def)
  have v4: "for_range (\<lambda>v4. if \<not> strings_Contains (IP_String nt v4) ''.''
                             then Some (ClientNonIPv4 (IP_String nt v4)) else None)
              (IPv4 nt client) = None
      \<longleftrightarrow> list_all (\<lambda>s. strings_Contains (IP_String nt (ParseIP nt s)) ''.'') (IPv4Addr client)"
    by (simp add: for_range_None_iff IPv4_map list.pred_map comp_def)
  have v6: "for_range (\<lambda>v6. if \<not> strings_Contains (IP_String nt v6) '':'' \<or>
                                strings_Contains (IP_String nt v6) ''.''
                             then Some (ClientNonIPv6 (IP_String nt v6)) else None)
              (IPv6 nt client) = None
      \<longleftrightarrow> list_all (\<lambda>s. strings_Contains (IP_String nt (ParseIP nt s)) '':'' \<and>
                         \<not> strings_Contains (IP_String nt (ParseIP nt s)) ''.'') (IPv6Addr client)"
    by (simp add: for_range_None_iff IPv6_map list.pred_map comp_def)
  define a where
    "a = for_range (\<lambda>ip. if ip = None then Some ClientInvalidIP else None)
           (IPv6 nt client @ IPv4 nt client)"
  define b where
    "b = for_range (\<lambda>v4. if \<not> strings_Contains (IP_String nt v4) ''.''
                          then Some (ClientNonIPv4 (IP_String nt v4)) else None) (IPv4 nt client)"
  define c where
    "c = for_range (\<lambda>v6. if \<not> strings_Contains (IP_String nt v6) '':'' \<or>
                             strings_Contains (IP_String nt v6) ''.''
                          then Some (ClientNonIPv6 (IP_String nt v6)) else None) (IPv6 nt client)"
  have "ClientConfig_Validate nt client = None \<longleftrightarrow>
          ClientName client \<noteq> [] \<and> a = None \<and> b = None \<and> c = None \<and>
          \<not> (Password client = [] \<and> length (IPv4 nt client) = 0 \<and> length (IPv6 nt client) = 0) \<and>
          \<not> (length (Password client) < 32 \<and> Password client \<noteq> []) \<and>
          \<not> length (Password client) > 128"
    unfolding ClientConfig_Validate_def a_def [symmetric] b_def [symmetric] c_def [symmetric]
    by (simp add: case_option_None_iff)
  moreover have "length (IPv4 nt client) = 0 \<longleftrightarrow> IPv4Addr client = []"
    by (simp add: IPv4_map)
  moreover have "length (IPv6 nt client) = 0 \<longleftrightarrow> IPv6Addr client = []"
    by (simp add: IPv6_map)
  ultimately show ?thesis
    using nil v4 v6
    unfolding a_def [symmetric] b_def [symmetric] c_def [symmetric]
      spec_client_valid_def families_match_def
    by auto
qed

lemma ClientConfig_Validate_named:
  assumes "ClientName client \<noteq> []"
  shows "ClientConfig_Validate nt client \<noteq> Some ClientNoName"
proof
  assume v: "ClientConfig_Validate nt client = Some ClientNoName"
  have a: "for_range (\<lambda>ip. if ip = None then Some ClientInvalidIP else None) xs \<noteq> Some ClientNoName"
    for xs :: "IP list"
    by (auto dest!: for_range_Some split: if_splits)
  have b: "for_range (\<lambda>v4. if \<not> strings_Contains (IP_String nt v4) ''.''
                            then Some (ClientNonIPv4 (IP_String nt v4)) else None) xs
             \<noteq> Some ClientNoName" for xs
    by (auto dest!: for_range_Some split: if_splits)
  have c: "for_range (\<lambda>v6. if \<not> strings_Contains (IP_String nt v6) '':'' \<or>
                               strings_Contains (IP_String nt v6) ''.''
                            then Some (ClientNonIPv6 (IP_String nt v6)) else None) xs
             \<noteq> Some ClientNoName" for xs
    by (auto dest!: for_range_Some split: if_splits)
  from v assms a b c show False
    unfolding ClientConfig_Validate_def
    by (simp split: option.splits if_splits)
qed

subsection \<open>The duplicate check\<close>

lemma check_IPs_Inr_iff:
  "check_IPs nt name i ipSet ips = Inr S \<longleftrightarrow>
     distinct (map (IP_String nt) ips) \<and> set (map (IP_String nt) ips) \<inter> ipSet = {} \<and>
     S = ipSet \<union> set (map (IP_String nt) ips)"
  by (induction ips arbitrary: ipSet) auto

lemma check_IPs_Inl:
  "check_IPs nt name i ipSet ips = Inl e \<Longrightarrow> \<exists>a. e = ClientReusesIP name (i + 1) a"
  by (induction ips arbitrary: ipSet) (auto split: if_splits)

lemma Name_fields [simp]:
  "IPv4Addr (snd (Name c)) = IPv4Addr c" "IPv6Addr (snd (Name c)) = IPv6Addr c"
  "Password (snd (Name c)) = Password c" "fst (Name (snd (Name c))) = fst (Name c)"
  by (simp_all add: Name_def)

lemma client_addresses_Name [simp]:
  "IPv6 nt (snd (Name c)) = IPv6 nt c" "IPv4 nt (snd (Name c)) = IPv4 nt c"
  by (simp_all add: IPv4_map IPv6_map)

lemma check_duplicates_None_iff:
  "check_duplicates nt i nameSet passSet ipSet cs = None \<longleftrightarrow>
     distinct (map (\<lambda>c. fst (Name c)) cs) \<and> set (map (\<lambda>c. fst (Name c)) cs) \<inter> nameSet = {} \<and>
     distinct (passwords cs) \<and> set (passwords cs) \<inter> passSet = {} \<and>
     distinct (roster_addresses nt cs) \<and> set (roster_addresses nt cs) \<inter> ipSet = {}"
proof (induction cs arbitrary: i nameSet passSet ipSet)
  case Nil
  show ?case by (simp add: passwords_def roster_addresses_def)
next
  case (Cons c cs)
  let ?n = "fst (Name c)"
  let ?as = "client_addresses nt c"
  show ?case
  proof (cases "?n \<in> nameSet")
    case True
    then show ?thesis by (auto simp: Let_def)
  next
    case n: False
    show ?thesis
    proof (cases "Password c \<noteq> [] \<and> Password c \<in> passSet")
      case True
      with n show ?thesis by (auto simp: Let_def passwords_def)
    next
      case p: False
      define P where "P = (if Password c \<noteq> [] then insert (Password c) passSet else passSet)"
      show ?thesis
      proof (cases "check_IPs nt ?n i ipSet (IPv6 nt c @ IPv4 nt c)")
        case (Inl e)
        then have "\<not> (distinct ?as \<and> set ?as \<inter> ipSet = {})"
          using check_IPs_Inr_iff [of nt ?n i ipSet "IPv6 nt c @ IPv4 nt c"]
          by (auto simp: client_addresses_def)
        moreover from Inl n p have "check_duplicates nt i nameSet passSet ipSet (c # cs) \<noteq> None"
          by (auto simp: Let_def)
        ultimately show ?thesis
          by (auto simp: roster_addresses_def)
      next
        case (Inr S)
        then have S: "distinct ?as" "set ?as \<inter> ipSet = {}" "S = ipSet \<union> set ?as"
          using check_IPs_Inr_iff [of nt ?n i ipSet "IPv6 nt c @ IPv4 nt c" S]
          by (auto simp: client_addresses_def)
        let ?nm = "\<lambda>c. fst (Name c)"
        from Inr n p have "check_duplicates nt i nameSet passSet ipSet (c # cs) =
            check_duplicates nt (i + 1) (insert ?n nameSet) P S cs"
          by (auto simp: Let_def P_def)
        also have "\<dots> = None \<longleftrightarrow>
            (distinct (map ?nm cs) \<and> set (map ?nm cs) \<inter> insert ?n nameSet = {}) \<and>
            (distinct (passwords cs) \<and> set (passwords cs) \<inter> P = {}) \<and>
            (distinct (roster_addresses nt cs) \<and> set (roster_addresses nt cs) \<inter> S = {})"
          using Cons.IH [of "i + 1" "insert ?n nameSet" P S] by simp
        finally have step: "check_duplicates nt i nameSet passSet ipSet (c # cs) = None \<longleftrightarrow>
            (distinct (map ?nm cs) \<and> set (map ?nm cs) \<inter> insert ?n nameSet = {}) \<and>
            (distinct (passwords cs) \<and> set (passwords cs) \<inter> P = {}) \<and>
            (distinct (roster_addresses nt cs) \<and> set (roster_addresses nt cs) \<inter> S = {})" .
        have names: "distinct (map ?nm (c # cs)) \<and> set (map ?nm (c # cs)) \<inter> nameSet = {} \<longleftrightarrow>
            distinct (map ?nm cs) \<and> set (map ?nm cs) \<inter> insert ?n nameSet = {}"
          using n by auto
        have pws: "distinct (passwords (c # cs)) \<and> set (passwords (c # cs)) \<inter> passSet = {} \<longleftrightarrow>
            distinct (passwords cs) \<and> set (passwords cs) \<inter> P = {}"
          using p by (auto simp: P_def passwords_def)
        have ips: "distinct (roster_addresses nt (c # cs)) \<and>
              set (roster_addresses nt (c # cs)) \<inter> ipSet = {} \<longleftrightarrow>
            distinct (roster_addresses nt cs) \<and> set (roster_addresses nt cs) \<inter> S = {}"
          using S by (auto simp: roster_addresses_def)
        from step names pws ips show ?thesis by blast
      qed
    qed
  qed
qed

subsection \<open>\<^verbatim>\<open>Config.Validate\<close> is the first error of the documented checks\<close>

lemmas check_defs = check_port_def check_TLS_def check_file_def check_backends_def
  check_some_backend_def check_MaxUploadRAM_def check_EncryptionKey_def check_recipients_def
  check_metrics_def check_roster_def check_roster_entries_def no_backend_def no_recipient_def
  upload_ram_ok_def

lemma first_error_single: "first_error [x] = x"
  by (cases x) simp_all

lemma step_if:
  "\<lbrakk>c \<Longrightarrow> R = Some e; \<not> c \<Longrightarrow> L = R\<rbrakk> \<Longrightarrow> (if c then Some e else L) = R"
  by simp

lemma step_option:
  "\<lbrakk>\<And>err. z = Some err \<Longrightarrow> R = Some (f err); z = None \<Longrightarrow> L = R\<rbrakk>
   \<Longrightarrow> (case z of Some err \<Rightarrow> Some (f err) | None \<Rightarrow> L) = R"
  by (cases z) simp_all

lemma step_sum:
  "\<lbrakk>\<And>err. z = Inl err \<Longrightarrow> R = Some (f err); \<And>v. z = Inr v \<Longrightarrow> L v = R\<rbrakk>
   \<Longrightarrow> (case z of Inl err \<Rightarrow> Some (f err) | Inr v \<Rightarrow> L v) = R"
  by (cases z) simp_all

lemma Config_Validate_eq: "Config_Validate w conf = first_error (documented_checks w conf)"
  unfolding Config_Validate_def
  apply (rule step_if)
  subgoal by (simp add: documented_checks_def check_defs)
  apply (rule step_if)
  subgoal by (simp add: documented_checks_def check_defs)
  apply (rule step_if)
  subgoal by (simp add: documented_checks_def check_defs)
  apply (rule step_option)
  subgoal by (simp add: documented_checks_def check_defs)
  apply (rule step_option)
  subgoal by (simp add: documented_checks_def check_defs)
  apply (rule step_if)
  subgoal by (simp add: documented_checks_def check_defs)
  apply (rule step_option)
  subgoal by (simp add: documented_checks_def check_defs)
  apply (rule step_option)
  subgoal by (simp add: documented_checks_def check_defs)
  apply (rule step_option)
  subgoal by (simp add: documented_checks_def check_defs)
  apply (rule step_option)
  subgoal by (simp add: documented_checks_def check_defs)
  apply (rule step_option)
  subgoal by (simp add: documented_checks_def check_defs)
  apply (rule step_if)
  subgoal by (simp add: documented_checks_def check_defs)
  apply (rule step_if)
  subgoal by (auto simp add: documented_checks_def check_defs)
  apply (rule step_if)
  subgoal by (auto simp add: documented_checks_def check_defs)
  apply (rule step_if)
  subgoal by (auto simp add: documented_checks_def check_defs)
  apply (rule step_option)
  subgoal by (auto simp add: documented_checks_def check_defs)
  apply (rule step_option)
  subgoal by (auto simp add: documented_checks_def check_defs)
  apply (rule step_option)
  subgoal by (auto simp add: documented_checks_def check_defs validate_Prometheus_def split: if_splits)
  apply (rule step_if)
  subgoal by (auto simp add: documented_checks_def check_defs validate_Prometheus_def split: if_splits)
  apply (rule step_sum)
  subgoal by (auto simp add: documented_checks_def check_defs validate_Prometheus_def split: if_splits)
  apply (rule step_sum)
  subgoal by (auto simp add: documented_checks_def check_defs validate_Prometheus_def split: if_splits)
  apply (rule step_if)
  subgoal by (auto simp add: documented_checks_def check_defs validate_Prometheus_def split: if_splits)
  apply (rule step_option)
  subgoal by (auto simp add: documented_checks_def check_defs validate_Prometheus_def split: if_splits)
  subgoal by (auto simp add: documented_checks_def check_defs validate_Prometheus_def first_error_single split: if_splits)
  done

lemmas before_defs = before_backend_count_def before_EncryptionKey_def before_recipients_def
  before_metrics_def before_roster_def

lemma first_error_None_iff: "first_error xs = None \<longleftrightarrow> list_all (\<lambda>x. x = None) xs"
  by (induction xs rule: first_error.induct) simp_all

lemma first_error_Some: "first_error xs = Some e \<Longrightarrow> Some e \<in> set xs"
  by (induction xs rule: first_error.induct) auto

lemma first_error_nth:
  "k < length xs \<Longrightarrow> xs ! k = Some e \<Longrightarrow> (\<forall>j<k. xs ! j = None) \<Longrightarrow> first_error xs = Some e"
proof (induction xs arbitrary: k)
  case Nil
  then show ?case by simp
next
  case (Cons x xs)
  show ?case
  proof (cases k)
    case 0
    with Cons.prems show ?thesis by simp
  next
    case (Suc n)
    with Cons.prems have x: "x = None" by auto
    have "\<forall>j<n. xs ! j = None"
    proof (intro allI impI)
      fix j assume "j < n"
      then have "Suc j < k" using Suc by simp
      with Cons.prems(3) have "(x # xs) ! Suc j = None" by blast
      then show "xs ! j = None" by simp
    qed
    moreover from Cons.prems Suc have "n < length xs" "xs ! n = Some e" by simp_all
    ultimately have "first_error xs = Some e" by (rule Cons.IH [rotated 2])
    with x show ?thesis by simp
  qed
qed

lemma check_port_None: "check_port conf = None \<longleftrightarrow> port_ok conf"
  by (auto simp: check_port_def port_ok_def)

lemma check_file_None:
  "check_file w path required open_failed close_failed = None \<longleftrightarrow> file_ok w path"
  by (auto simp: check_file_def file_ok_def split: option.splits)

lemma check_TLS_None: "check_TLS w conf = None \<longleftrightarrow> tls_ok w conf"
  by (simp add: check_TLS_def tls_ok_def first_error_None_iff check_file_None)

lemma backend_loops_None:
  "validate_SwiftBackends w bs = None \<longleftrightarrow> list_all (\<lambda>b. swift_Validate w b = None) bs"
  "validate_GCSBackends w gs = None \<longleftrightarrow> list_all (\<lambda>b. gcs_Validate w b = None) gs"
  "validate_S3Backends w ss = None \<longleftrightarrow> list_all (\<lambda>b. s3_Validate w b = None) ss"
  by (simp_all add: validate_SwiftBackends_def validate_GCSBackends_def validate_S3Backends_def
      for_range_None_iff list_all_iff split: option.splits)

lemma check_backends_None: "check_backends w conf = None \<longleftrightarrow> backends_ok w conf"
  by (simp add: check_backends_def backends_ok_def first_error_None_iff backend_loops_None)

lemma recipient_loops_None:
  "parse_AgeID w rs = None \<longleftrightarrow> list_all (\<lambda>r. age_ParseX25519Recipient w r = None) rs"
  "parse_AgeSSH w ss = None \<longleftrightarrow> list_all (\<lambda>r. agessh_ParseRecipient w r = None) ss"
  by (simp_all add: parse_AgeID_def parse_AgeSSH_def for_range_None_iff list_all_iff
      split: option.splits)

lemma check_recipients_None:
  "check_recipients w conf = None \<longleftrightarrow> \<not> no_recipient conf \<and> recipients_parse w conf"
  by (simp add: check_recipients_def recipients_parse_def first_error_None_iff recipient_loops_None)

lemma MatchString_Nil [simp]: "\<not> MatchString_alnum_20_128 []"
  by (simp add: MatchString_alnum_20_128_def)

lemma check_metrics_None: "check_metrics conf = None \<longleftrightarrow> metrics_ok conf"
  by (auto simp: check_metrics_def validate_Prometheus_def metrics_ok_def)

lemma before_roster_iff:
  "before_roster w conf \<longleftrightarrow> list_all (\<lambda>x. x = None) (butlast (documented_checks w conf))"
  by (auto simp: documented_checks_def before_defs check_port_None check_TLS_None check_backends_None
      check_recipients_None check_metrics_None check_some_backend_def check_MaxUploadRAM_def
      check_EncryptionKey_def)

lemma Config_Validate_before_roster:
  "before_roster w conf \<Longrightarrow> Config_Validate w conf = check_roster w conf"
  by (simp add: Config_Validate_eq documented_checks_def before_defs check_port_None [symmetric]
      check_TLS_None [symmetric] check_backends_None [symmetric] check_recipients_None [symmetric]
      check_metrics_None [symmetric] check_some_backend_def check_MaxUploadRAM_def
      check_EncryptionKey_def first_error_single)

lemma Config_Validate_None_iff:
  "Config_Validate w conf = None \<longleftrightarrow> before_roster w conf \<and> check_roster w conf = None"
  by (auto simp: Config_Validate_eq first_error_None_iff before_roster_iff documented_checks_def)


subsection \<open>The roster checks\<close>

lemma list_all_enumerate:
  "list_all (\<lambda>(i, c). P c) (enumerate n cs) = list_all P cs"
  by (induction cs arbitrary: n) simp_all

lemma validate_clients_None_iff:
  "validate_clients nt clients = None \<longleftrightarrow>
     list_all (\<lambda>c. ClientConfig_Validate nt c = None) clients"
proof -
  have "(\<lambda>x. (case x of (i, c) \<Rightarrow>
            case ClientConfig_Validate nt c of
              Some err \<Rightarrow> Some (ClientInvalid (fst (Name c)) (i + 1) err)
            | None \<Rightarrow> None) = None) =
        (\<lambda>(i, c). ClientConfig_Validate nt c = None)"
    by (auto split: option.splits)
  then show ?thesis
    by (simp add: validate_clients_def for_range_None_iff list_all_enumerate)
qed

lemma validate_clients_Some:
  "validate_clients nt clients = Some e \<Longrightarrow> \<exists>name i err. e = ClientInvalid name i err"
  by (auto simp: validate_clients_def dest!: for_range_Some split: option.splits)

lemma valid_names:
  "list_all (\<lambda>c. ClientConfig_Validate nt c = None) clients \<Longrightarrow>
     map (\<lambda>c. fst (Name c)) clients = map ClientName clients"
  by (induction clients)
     (auto simp: ClientConfig_Validate_None_iff spec_client_valid_def Name_fst)

lemma check_roster_entries_None_iff:
  "check_roster_entries nt clients = None \<longleftrightarrow>
     clients \<noteq> [] \<and> list_all (\<lambda>c. ClientConfig_Validate nt c = None) clients \<and>
     distinct (map ClientName clients) \<and> distinct (passwords clients) \<and>
     distinct (roster_addresses nt clients)"
  by (auto simp: check_roster_entries_def first_error_None_iff validate_clients_None_iff
      check_duplicates_None_iff valid_names)

lemma check_roster_loaded:
  "ClientFile conf \<noteq> [] \<Longrightarrow> ioutil_ReadFile w (ClientFile conf) = Inr fc \<Longrightarrow>
   yaml_Unmarshal w fc = Inr clients \<Longrightarrow>
   check_roster w conf = check_roster_entries (net w) clients"
  by (simp add: check_roster_def)

lemma shared_IP_not_distinct:
  "list_ex (shared_IP nt c) cs \<Longrightarrow>
     set (client_addresses nt c) \<inter> set (roster_addresses nt cs) \<noteq> {}"
  by (induction cs) (auto simp: shared_IP_def roster_addresses_def list_ex_iff)

lemma shares_IP_not_distinct:
  "shares_IP nt clients \<Longrightarrow> \<not> distinct (roster_addresses nt clients)"
proof (induction clients)
  case Nil
  then show ?case by simp
next
  case (Cons c cs)
  then show ?case
    using shared_IP_not_distinct [of nt c cs]
    by (auto simp: roster_addresses_def)
qed

lemma entry_not_distinct:
  "list_ex (\<lambda>c. \<not> distinct (client_addresses nt c)) clients \<Longrightarrow>
     \<not> distinct (roster_addresses nt clients)"
  by (induction clients) (auto simp: roster_addresses_def)


subsection \<open>Evaluating the examples\<close>

lemmas example_defs = example_World_def example_Config_def example_roster_def
  reuse_roster_def same_name_roster_def shared_address_roster_def spelled_twice_roster_def

lemmas pred_defs = port_ok_def tls_ok_def file_ok_def backends_ok_def no_backend_def
  upload_ram_ok_def no_recipient_def recipients_parse_def metrics_ok_def
  MatchString_alnum_20_128_def is_alnum_def ord_def

lemma example_before_roster: "before_roster (example_World roster) example_Config"
  by (simp add: before_defs pred_defs example_defs)

lemma example_loaded:
  "ClientFile example_Config \<noteq> []"
  "ioutil_ReadFile (example_World roster) (ClientFile example_Config) = Inr ''clients''"
  "yaml_Unmarshal (example_World roster) fc = Inr roster"
  "net (example_World roster) = go_net"
  by (simp_all add: example_defs)

lemmas client_defs = spec_client_valid_def addresses_parse_def families_match_def
  client_addresses_def roster_addresses_def passwords_def IPv4_map IPv6_map

lemma example_roster_valid:
  "list_all (\<lambda>c. ClientConfig_Validate go_net c = None) example_roster"
  by (simp add: ClientConfig_Validate_None_iff client_defs example_defs go_net_examples)

lemma reuse_roster_valid:
  "list_all (\<lambda>c. ClientConfig_Validate go_net c = None) reuse_roster"
  by (simp add: ClientConfig_Validate_None_iff client_defs example_defs go_net_examples)

lemma example_roster_addresses:
  "roster_addresses go_net example_roster = [''2001:db8::68'', ''10.0.0.1'', ''10.0.0.2'']"
  by (simp add: client_defs example_defs go_net_examples)

lemma reuse_roster_rejected:
  "Config_Validate (example_World reuse_roster) example_Config =
     Some (ClientReusesIP ''web1'' 1 ''10.0.0.1'')"
proof -
  have "validate_clients go_net reuse_roster = None"
    by (simp add: validate_clients_None_iff reuse_roster_valid)
  moreover have "check_duplicates go_net 0 {} {} {} reuse_roster =
      Some (ClientReusesIP ''web1'' 1 ''10.0.0.1'')"
    by (simp add: reuse_roster_def Name_def IPv4_map IPv6_map go_net_examples)
  ultimately have "check_roster_entries go_net reuse_roster =
      Some (ClientReusesIP ''web1'' 1 ''10.0.0.1'')"
    by (simp add: check_roster_entries_def reuse_roster_def)
  then show ?thesis
    by (simp add: Config_Validate_before_roster [OF example_before_roster]
        check_roster_loaded [OF example_loaded(1-3)] example_loaded(4))
qed

subsection \<open>Which errors a check can return\<close>

lemma check_duplicates_Some:
  "check_duplicates nt i nameSet passSet ipSet cs = Some e \<Longrightarrow>
     (\<exists>k name. e = ClientNameNotUnique k name) \<or>
     (\<exists>k name. e = ClientPasswordNotUnique k name) \<or>
     (\<exists>name k a. e = ClientReusesIP name k a)"
proof (induction cs arbitrary: i nameSet passSet ipSet)
  case Nil
  then show ?case by simp
next
  case (Cons c cs)
  show ?case
  proof (cases "check_IPs nt (fst (Name c)) i ipSet (IPv6 nt c @ IPv4 nt c)")
    case (Inl err)
    with Cons.prems check_IPs_Inl [OF Inl] show ?thesis
      by (auto simp: Let_def split: if_splits)
  next
    case (Inr S)
    with Cons.prems Cons.IH show ?thesis
      by (auto simp: Let_def split: if_splits)
  qed
qed

lemma check_duplicates_ReusesIP:
  assumes "check_duplicates nt i nameSet passSet ipSet cs = Some e"
    and "distinct (map (\<lambda>c. fst (Name c)) cs)"
    and "set (map (\<lambda>c. fst (Name c)) cs) \<inter> nameSet = {}"
    and "distinct (passwords cs)"
    and "set (passwords cs) \<inter> passSet = {}"
  shows "\<exists>name k a. e = ClientReusesIP name k a"
  using assms
proof (induction cs arbitrary: i nameSet passSet ipSet)
  case Nil
  then show ?case by simp
next
  case (Cons c cs)
  let ?P = "if Password c \<noteq> [] then insert (Password c) passSet else passSet"
  from Cons.prems have n: "fst (Name c) \<notin> nameSet"
    and p: "\<not> (Password c \<noteq> [] \<and> Password c \<in> passSet)"
    by (auto simp: passwords_def)
  show ?case
  proof (cases "check_IPs nt (fst (Name c)) i ipSet (IPv6 nt c @ IPv4 nt c)")
    case (Inl err)
    with Cons.prems(1) n p check_IPs_Inl [OF Inl] show ?thesis
      by (auto simp: Let_def)
  next
    case (Inr S)
    with Cons.prems(1) n p have
      "check_duplicates nt (i + 1) (insert (fst (Name c)) nameSet) ?P S cs = Some e"
      by (auto simp: Let_def)
    moreover from Cons.prems have "distinct (map (\<lambda>c. fst (Name c)) cs)"
      "set (map (\<lambda>c. fst (Name c)) cs) \<inter> insert (fst (Name c)) nameSet = {}"
      "distinct (passwords cs)" "set (passwords cs) \<inter> ?P = {}"
      by (auto simp: passwords_def split: if_splits)
    ultimately show ?thesis by (rule Cons.IH)
  qed
qed

lemma first_error_Some_ex: "first_error xs = Some e \<Longrightarrow> list_ex (\<lambda>x. x = Some e) xs"
  by (induction xs rule: first_error.induct) auto

lemma backend_loops_Some:
  "validate_SwiftBackends w bs = Some e \<Longrightarrow> \<exists>name err. e = SwiftBackendInvalid name err"
  "validate_GCSBackends w gs = Some e \<Longrightarrow> \<exists>name err. e = GCSBackendInvalid name err"
  "validate_S3Backends w ss = Some e \<Longrightarrow> \<exists>name err. e = S3BackendInvalid name err"
  by (auto simp: validate_SwiftBackends_def validate_GCSBackends_def validate_S3Backends_def
      dest!: for_range_Some split: option.splits)

lemma recipient_loops_Some:
  "parse_AgeID w rs = Some e \<Longrightarrow>
     \<exists>r err. r \<in> set rs \<and> age_ParseX25519Recipient w r = Some err \<and> e = AgeIDParse r err"
  "parse_AgeSSH w ss = Some e \<Longrightarrow>
     \<exists>r err. r \<in> set ss \<and> agessh_ParseRecipient w r = Some err \<and> e = AgeSSHParse r err"
  by (auto simp: parse_AgeID_def parse_AgeSSH_def dest!: for_range_Some split: option.splits)

lemma check_TLS_Some:
  "check_TLS w conf = Some e \<Longrightarrow>
     e = TLSChainRequired \<or> (\<exists>err. e = TLSChainOpen err) \<or> (\<exists>err. e = TLSChainClose err) \<or>
     e = TLSKeyRequired \<or> (\<exists>err. e = TLSKeyOpen err) \<or> (\<exists>err. e = TLSKeyClose err)"
  by (auto simp: check_TLS_def check_file_def dest!: first_error_Some_ex split: if_splits option.splits)

lemma check_backends_Some:
  assumes "check_backends w conf = Some e"
  shows "(\<exists>name err. e = SwiftBackendInvalid name err) \<or>
         (\<exists>name err. e = GCSBackendInvalid name err) \<or>
         (\<exists>name err. e = S3BackendInvalid name err)"
proof -
  from assms have "validate_SwiftBackends w (SwiftBackends conf) = Some e \<or>
      validate_GCSBackends w (GCSBackends conf) = Some e \<or>
      validate_S3Backends w (S3Backends conf) = Some e"
    by (auto simp: check_backends_def dest!: first_error_Some_ex)
  then show ?thesis
    by (blast dest: backend_loops_Some)
qed

lemma check_recipients_Some:
  assumes "check_recipients w conf = Some e"
  shows "e = NoAgeKey \<or>
     (\<exists>r err. r \<in> set (AgeID (Encryption conf)) \<and> age_ParseX25519Recipient w r = Some err \<and>
        e = AgeIDParse r err) \<or>
     (\<exists>r err. r \<in> set (AgeSSH (Encryption conf)) \<and> agessh_ParseRecipient w r = Some err \<and>
        e = AgeSSHParse r err)"
proof -
  from assms have "e = NoAgeKey \<or> parse_AgeID w (AgeID (Encryption conf)) = Some e \<or>
      parse_AgeSSH w (AgeSSH (Encryption conf)) = Some e"
    by (auto simp: check_recipients_def dest!: first_error_Some_ex split: if_splits)
  then show ?thesis
    by (blast dest: recipient_loops_Some)
qed

lemma check_metrics_Some:
  "check_metrics conf = Some e \<Longrightarrow>
     e = PrometheusUserMissing \<or> e = PrometheusUserPattern \<or>
     e = PrometheusPassMissing \<or> e = PrometheusPassPattern"
  by (auto simp: check_metrics_def validate_Prometheus_def split: if_splits)

lemma check_roster_entries_Some:
  assumes "check_roster_entries nt clients = Some e"
  shows "e = NoClients \<or> (\<exists>name i err. e = ClientInvalid name i err) \<or>
     (\<exists>k name. e = ClientNameNotUnique k name) \<or>
     (\<exists>k name. e = ClientPasswordNotUnique k name) \<or>
     (\<exists>name k a. e = ClientReusesIP name k a)"
proof -
  from assms have "e = NoClients \<or> validate_clients nt clients = Some e \<or>
      check_duplicates nt 0 {} {} {} clients = Some e"
    by (auto simp: check_roster_entries_def dest!: first_error_Some_ex split: if_splits)
  then show ?thesis
    by (blast dest: validate_clients_Some check_duplicates_Some)
qed

lemma check_roster_Some:
  assumes "check_roster w conf = Some e"
  shows "e = NoClientFile \<or> (\<exists>err. e = ClientFileOpen err) \<or> (\<exists>err. e = ClientFileYAML err) \<or>
     e = NoClients \<or> (\<exists>name i err. e = ClientInvalid name i err) \<or>
     (\<exists>k name. e = ClientNameNotUnique k name) \<or>
     (\<exists>k name. e = ClientPasswordNotUnique k name) \<or>
     (\<exists>name k a. e = ClientReusesIP name k a)"
proof -
  from assms have "e = NoClientFile \<or> (\<exists>err. e = ClientFileOpen err) \<or>
      (\<exists>err. e = ClientFileYAML err) \<or>
      (\<exists>clients. check_roster_entries (net w) clients = Some e)"
    by (auto simp: check_roster_def split: if_splits sum.splits)
  then show ?thesis
    by (blast dest: check_roster_entries_Some)
qed

lemma later_checks_not_port:
  assumes "first_error (tl (documented_checks w conf)) = Some e"
  shows "e \<noteq> PortNegative \<and> e \<noteq> PortTooLarge"
proof -
  from assms have "Some e \<in> set (tl (documented_checks w conf))"
    by (rule first_error_Some)
  then consider "check_TLS w conf = Some e" | "check_backends w conf = Some e"
    | "check_some_backend conf = Some e" | "check_MaxUploadRAM conf = Some e"
    | "check_EncryptionKey conf = Some e" | "check_recipients w conf = Some e"
    | "check_metrics conf = Some e" | "check_roster w conf = Some e"
    by (auto simp: documented_checks_def)
  then show ?thesis
  proof cases
    case 1 then show ?thesis by (auto dest: check_TLS_Some)
  next
    case 2 then show ?thesis by (auto dest: check_backends_Some)
  next
    case 3 then show ?thesis by (auto simp: check_some_backend_def split: if_splits)
  next
    case 4 then show ?thesis by (auto simp: check_MaxUploadRAM_def split: if_splits)
  next
    case 5 then show ?thesis by (auto simp: check_EncryptionKey_def split: if_splits)
  next
    case 6 then show ?thesis by (auto dest: check_recipients_Some)
  next
    case 7 then show ?thesis by (auto dest: check_metrics_Some)
  next
    case 8 then show ?thesis by (auto dest: check_roster_Some)
  qed
qed


lemma stage_checks:
  "port_ok conf \<Longrightarrow> check_port conf = None"
  "tls_ok w conf \<Longrightarrow> check_TLS w conf = None"
  "backends_ok w conf \<Longrightarrow> check_backends w conf = None"
  "\<not> no_backend conf \<Longrightarrow> check_some_backend conf = None"
  "upload_ram_ok conf \<Longrightarrow> check_MaxUploadRAM conf = None"
  "EncryptionKey conf = [] \<Longrightarrow> check_EncryptionKey conf = None"
  "\<not> no_recipient conf \<Longrightarrow> recipients_parse w conf \<Longrightarrow> check_recipients w conf = None"
  "metrics_ok conf \<Longrightarrow> check_metrics conf = None"
  by (simp_all add: check_port_None check_TLS_None check_backends_None check_recipients_None
      check_metrics_None check_some_backend_def check_MaxUploadRAM_def check_EncryptionKey_def)

lemma no_backend_backends_ok: "no_backend conf \<Longrightarrow> backends_ok w conf"
  by (simp add: no_backend_def backends_ok_def)

lemma checks_metrics_disabled:
  "documented_checks w (conf\<lparr>PrometheusEnabled := False\<rparr>) =
     (documented_checks w conf)[7 := None]"
  by (simp add: documented_checks_def check_defs)

lemma checks_credentials_unused:
  "\<not> PrometheusEnabled conf \<Longrightarrow>
     documented_checks w (conf\<lparr>PrometheusAuthUser := u, PrometheusAuthPass := p\<rparr>) =
     documented_checks w conf"
  by (simp add: documented_checks_def check_defs)

section \<open>The claims\<close>

text \<open>
  C1 (as amended). For any client entry and any behaviour of the address parser and
  printer, \<^verbatim>\<open>ClientConfig.Validate\<close> returns no error if and only if the name is not empty,
  the password is empty or 32 to 128 bytes long, at least one of password, IPv4 list and
  IPv6 list is not empty, every listed address parses, and moreover every address of the
  IPv4 list prints with a dot and every address of the IPv6 list prints with a colon and
  without a dot.
\<close>

theorem C1_client_validate_iff:
  "ClientConfig_Validate nt client = None \<longleftrightarrow>
     ClientName client \<noteq> [] \<and>
     (Password client = [] \<or>
      (32 \<le> length (Password client) \<and> length (Password client) \<le> 128)) \<and>
     (Password client \<noteq> [] \<or> IPv4Addr client \<noteq> [] \<or> IPv6Addr client \<noteq> []) \<and>
     (\<forall>s \<in> set (IPv4Addr client) \<union> set (IPv6Addr client). ParseIP nt s \<noteq> None) \<and>
     (\<forall>s \<in> set (IPv4Addr client). strings_Contains (IP_String nt (ParseIP nt s)) ''.'') \<and>
     (\<forall>s \<in> set (IPv6Addr client).
        strings_Contains (IP_String nt (ParseIP nt s)) '':'' \<and>
        \<not> strings_Contains (IP_String nt (ParseIP nt s)) ''.'')"
proof -
  have "addresses_parse nt client \<longleftrightarrow>
      (\<forall>s \<in> set (IPv4Addr client) \<union> set (IPv6Addr client). ParseIP nt s \<noteq> None)"
    by (auto simp: addresses_parse_def list_all_iff)
  moreover have "families_match nt client \<longleftrightarrow>
      (\<forall>s \<in> set (IPv4Addr client). strings_Contains (IP_String nt (ParseIP nt s)) ''.'') \<and>
      (\<forall>s \<in> set (IPv6Addr client).
         strings_Contains (IP_String nt (ParseIP nt s)) '':'' \<and>
         \<not> strings_Contains (IP_String nt (ParseIP nt s)) ''.'')"
    by (simp add: families_match_def list_all_iff)
  ultimately show ?thesis
    by (simp add: ClientConfig_Validate_None_iff spec_client_valid_def)
qed

theorem C1_client_validate_iff_witness:
  "spec_client_valid go_net
     \<lparr>ClientName = ''web1'', IPv4Addr = [''10.0.0.1''], IPv6Addr = [''2001:db8::68''], Password = []\<rparr> \<and>
   families_match go_net
     \<lparr>ClientName = ''web1'', IPv4Addr = [''10.0.0.1''], IPv6Addr = [''2001:db8::68''], Password = []\<rparr> \<and>
   ClientConfig_Validate go_net
     \<lparr>ClientName = ''web1'', IPv4Addr = [''10.0.0.1''], IPv6Addr = [''2001:db8::68''], Password = []\<rparr>
     = None"
proof -
  let ?c = "\<lparr>ClientName = ''web1'', IPv4Addr = [''10.0.0.1''],
             IPv6Addr = [''2001:db8::68''], Password = []\<rparr>"
  have v: "spec_client_valid go_net ?c"
    by (simp add: spec_client_valid_def addresses_parse_def go_net_examples)
  have f: "families_match go_net ?c"
    by (simp add: families_match_def go_net_examples)
  have "ClientConfig_Validate go_net ?c = None"
    using C1_client_validate_iff [of go_net ?c]
    by (simp add: go_net_examples)
  with v f show ?thesis by simp
qed

text \<open>
  C1 as the specification states it (the four conditions alone are equivalent to success)
  fails: an entry whose IPv4 list holds the IPv6 address \<^verbatim>\<open>::1\<close> meets the four conditions,
  and \<^verbatim>\<open>Validate\<close> rejects it.
\<close>

theorem C1_counterexample:
  "spec_client_valid go_net
     \<lparr>ClientName = ''web1'', IPv4Addr = [''::1''], IPv6Addr = [], Password = []\<rparr> \<and>
   ClientConfig_Validate go_net
     \<lparr>ClientName = ''web1'', IPv4Addr = [''::1''], IPv6Addr = [], Password = []\<rparr>
     = Some (ClientNonIPv4 ''::1'')"
  by (simp add: spec_client_valid_def addresses_parse_def ClientConfig_Validate_def
      IPv4_map IPv6_map go_net_examples)

text \<open>
  C2 (as amended). Let the client file of the configuration decode to a roster. If two
  entries have the same name, or the same non-empty password, or an address in common,
  \<^verbatim>\<open>Config.Validate\<close> returns an error. If every check before the roster passes (which
  includes at least one backend and one recipient), the roster is not empty, every entry
  is valid on its own, names are pairwise distinct, non-empty passwords are pairwise
  distinct, and no printed address occurs twice in the concatenation of all entries'
  IPv6 and IPv4 lists (so neither in two entries nor twice in one entry),
  \<^verbatim>\<open>Config.Validate\<close> succeeds.
\<close>

theorem C2_roster_uniqueness:
  assumes "ClientFile conf \<noteq> []"
    and "ioutil_ReadFile w (ClientFile conf) = Inr fc"
    and "yaml_Unmarshal w fc = Inr clients"
  shows "(\<not> distinct (map ClientName clients) \<or> \<not> distinct (passwords clients) \<or>
          shares_IP (net w) clients \<longrightarrow> Config_Validate w conf \<noteq> None) \<and>
         (before_roster w conf \<and> clients \<noteq> [] \<and>
          list_all (\<lambda>c. ClientConfig_Validate (net w) c = None) clients \<and>
          distinct (map ClientName clients) \<and> distinct (passwords clients) \<and>
          distinct (roster_addresses (net w) clients) \<longrightarrow> Config_Validate w conf = None)"
proof -
  have r: "check_roster w conf = check_roster_entries (net w) clients"
    using assms by (rule check_roster_loaded)
  have ok: "Config_Validate w conf = None \<longleftrightarrow>
      before_roster w conf \<and> clients \<noteq> [] \<and>
      list_all (\<lambda>c. ClientConfig_Validate (net w) c = None) clients \<and>
      distinct (map ClientName clients) \<and> distinct (passwords clients) \<and>
      distinct (roster_addresses (net w) clients)"
    by (simp add: Config_Validate_None_iff r check_roster_entries_None_iff)
  have "shares_IP (net w) clients \<longrightarrow> \<not> distinct (roster_addresses (net w) clients)"
    by (simp add: shares_IP_not_distinct)
  with ok show ?thesis by blast
qed

theorem C2_roster_uniqueness_witness:
  "before_roster (example_World example_roster) example_Config \<and>
   list_all (\<lambda>c. ClientConfig_Validate go_net c = None) example_roster \<and>
   distinct (roster_addresses go_net example_roster) \<and>
   Config_Validate (example_World example_roster) example_Config = None \<and>
   \<not> distinct (map ClientName same_name_roster) \<and>
   Config_Validate (example_World same_name_roster) example_Config \<noteq> None \<and>
   shares_IP go_net shared_address_roster \<and>
   Config_Validate (example_World shared_address_roster) example_Config \<noteq> None"
proof -
  have a: "example_roster \<noteq> []" "distinct (map ClientName example_roster)"
    "distinct (passwords example_roster)"
    by (simp_all add: example_roster_def passwords_def)
  have b: "distinct (roster_addresses go_net example_roster)"
    by (simp add: example_roster_addresses)
  have c: "\<not> distinct (map ClientName same_name_roster)"
    by (simp add: same_name_roster_def)
  have d: "shares_IP go_net shared_address_roster"
    by (simp add: shared_address_roster_def shared_IP_def client_defs go_net_examples)
  from C2_roster_uniqueness [OF example_loaded(1) example_loaded(2) [of example_roster]
      example_loaded(3) [of example_roster "''clients''"]]
    a b example_before_roster [of example_roster] example_roster_valid
  have "Config_Validate (example_World example_roster) example_Config = None"
    by (simp add: example_loaded(4))
  moreover from C2_roster_uniqueness [OF example_loaded(1) example_loaded(2) [of same_name_roster]
      example_loaded(3) [of same_name_roster "''clients''"]] c
  have "Config_Validate (example_World same_name_roster) example_Config \<noteq> None"
    by blast
  moreover from C2_roster_uniqueness [OF example_loaded(1)
      example_loaded(2) [of shared_address_roster]
      example_loaded(3) [of shared_address_roster "''clients''"]] d
  have "Config_Validate (example_World shared_address_roster) example_Config \<noteq> None"
    by (simp add: example_loaded(4))
  ultimately show ?thesis
    using a b c d example_before_roster [of example_roster] example_roster_valid by simp
qed

text \<open>
  C2 as the specification states it asks only that no address is shared between entries,
  and fails: the roster whose single valid entry lists \<^verbatim>\<open>10.0.0.1\<close> twice has distinct
  names and passwords and no address shared between entries, every other check passes,
  and \<^verbatim>\<open>Config.Validate\<close> rejects it.
\<close>

theorem C2_counterexample:
  "before_roster (example_World reuse_roster) example_Config \<and>
   ClientFile example_Config \<noteq> [] \<and>
   ioutil_ReadFile (example_World reuse_roster) (ClientFile example_Config) = Inr ''clients'' \<and>
   yaml_Unmarshal (example_World reuse_roster) ''clients'' = Inr reuse_roster \<and>
   reuse_roster \<noteq> [] \<and>
   list_all (\<lambda>c. ClientConfig_Validate (net (example_World reuse_roster)) c = None) reuse_roster \<and>
   distinct (map ClientName reuse_roster) \<and>
   distinct (passwords reuse_roster) \<and>
   \<not> shares_IP (net (example_World reuse_roster)) reuse_roster \<and>
   Config_Validate (example_World reuse_roster) example_Config =
     Some (ClientReusesIP ''web1'' 1 ''10.0.0.1'')"
proof -
  have "reuse_roster \<noteq> []" "distinct (map ClientName reuse_roster)"
    "distinct (passwords reuse_roster)" "\<not> shares_IP go_net reuse_roster"
    by (simp_all add: reuse_roster_def passwords_def)
  then show ?thesis
    using example_before_roster [of reuse_roster] reuse_roster_valid reuse_roster_rejected
    by (simp add: example_loaded)
qed

text \<open>
  C3. \<^verbatim>\<open>Config.Validate\<close> returns the first error of the nine documented checks, taken in
  the documented order (port; TLS files; backends' validation; at least one backend;
  upload memory; deprecated key; recipients; metrics; roster): whenever check \<open>k\<close> fails with
  an error and every check before it passes, that error is the result, whatever the later
  checks say; when all pass, the result is success. The result is one error, not a list.
\<close>

theorem C3_first_error_wins:
  "Config_Validate w conf = first_error (documented_checks w conf) \<and>
   (\<forall>k e. k < length (documented_checks w conf) \<and> documented_checks w conf ! k = Some e \<and>
          (\<forall>j<k. documented_checks w conf ! j = None)
          \<longrightarrow> Config_Validate w conf = Some e) \<and>
   (list_all (\<lambda>c. c = None) (documented_checks w conf) \<longrightarrow> Config_Validate w conf = None)"
  by (auto simp: Config_Validate_eq first_error_None_iff intro: first_error_nth)

theorem C3_first_error_wins_witness:
  "documented_checks (example_World example_roster)
     (example_Config\<lparr>ListenPort := 70000, SwiftBackends := [], S3Backends := []\<rparr>) ! 0
     = Some PortTooLarge \<and>
   documented_checks (example_World example_roster)
     (example_Config\<lparr>ListenPort := 70000, SwiftBackends := [], S3Backends := []\<rparr>) ! 3
     = Some NoBackend \<and>
   Config_Validate (example_World example_roster)
     (example_Config\<lparr>ListenPort := 70000, SwiftBackends := [], S3Backends := []\<rparr>)
     = Some PortTooLarge"
proof -
  let ?w = "example_World example_roster"
  let ?c = "example_Config\<lparr>ListenPort := 70000, SwiftBackends := [], S3Backends := []\<rparr>"
  have a: "documented_checks ?w ?c ! 0 = Some PortTooLarge"
    by (simp add: documented_checks_def check_port_def example_defs)
  have b: "documented_checks ?w ?c ! 3 = Some NoBackend"
    by (simp add: documented_checks_def check_some_backend_def no_backend_def example_defs)
  have "0 < length (documented_checks ?w ?c)"
    by (simp add: documented_checks_def)
  with a C3_first_error_wins [of ?w ?c]
  have "Config_Validate ?w ?c = Some PortTooLarge" by blast
  with a b show ?thesis by simp
qed

text \<open>
  C4. When the port and the TLS files pass their checks and no backend of any of the
  three kinds is configured, \<^verbatim>\<open>Config.Validate\<close> returns the error whose message is
  \<^verbatim>\<open>eldim needs at least one backend to operate, 0 found\<close>.
\<close>

theorem C4_no_backend:
  assumes "port_ok conf" and "tls_ok w conf" and "no_backend conf"
  shows "Config_Validate w conf = Some NoBackend \<and>
         Error NoBackend = ''eldim needs at least one backend to operate, 0 found''"
  using assms
  by (simp add: Config_Validate_eq documented_checks_def stage_checks no_backend_backends_ok
      check_some_backend_def)

theorem C4_no_backend_witness:
  "port_ok (example_Config\<lparr>SwiftBackends := [], S3Backends := []\<rparr>) \<and>
   tls_ok (example_World example_roster) (example_Config\<lparr>SwiftBackends := [], S3Backends := []\<rparr>) \<and>
   no_backend (example_Config\<lparr>SwiftBackends := [], S3Backends := []\<rparr>) \<and>
   Config_Validate (example_World example_roster)
     (example_Config\<lparr>SwiftBackends := [], S3Backends := []\<rparr>) = Some NoBackend"
proof -
  let ?w = "example_World example_roster"
  let ?c = "example_Config\<lparr>SwiftBackends := [], S3Backends := []\<rparr>"
  have h: "port_ok ?c" "tls_ok ?w ?c" "no_backend ?c"
    by (simp_all add: pred_defs example_defs)
  from h C4_no_backend [OF h] show ?thesis by simp
qed

text \<open>
  C5. With metrics enabled, \<^verbatim>\<open>Config.Validate\<close> succeeds only if the user name and the
  password each consist of 20 to 128 ASCII letters and digits; a user name of 10 characters
  makes it fail (with the pattern error of the user name when every earlier check
  passes); a user name and a password of 24 letters and digits pass the metrics check,
  and the result is then the one the same configuration has with metrics disabled. With
  metrics disabled the result does not depend on the two credentials.
\<close>

theorem C5_metrics_auth:
  "(PrometheusEnabled conf \<and> Config_Validate w conf = None \<longrightarrow>
      MatchString_alnum_20_128 (PrometheusAuthUser conf) \<and>
      MatchString_alnum_20_128 (PrometheusAuthPass conf)) \<and>
   (PrometheusEnabled conf \<and> length (PrometheusAuthUser conf) = 10 \<longrightarrow>
      Config_Validate w conf \<noteq> None) \<and>
   (before_metrics w conf \<and> PrometheusEnabled conf \<and> length (PrometheusAuthUser conf) = 10 \<longrightarrow>
      Config_Validate w conf = Some PrometheusUserPattern) \<and>
   (PrometheusEnabled conf \<and>
    length (PrometheusAuthUser conf) = 24 \<and> list_all is_alnum (PrometheusAuthUser conf) \<and>
    length (PrometheusAuthPass conf) = 24 \<and> list_all is_alnum (PrometheusAuthPass conf) \<longrightarrow>
      check_metrics conf = None \<and>
      Config_Validate w conf = Config_Validate w (conf\<lparr>PrometheusEnabled := False\<rparr>)) \<and>
   (\<not> PrometheusEnabled conf \<longrightarrow>
      Config_Validate w (conf\<lparr>PrometheusAuthUser := u, PrometheusAuthPass := p\<rparr>) =
      Config_Validate w conf)"
proof -
  have a: "PrometheusEnabled conf \<and> Config_Validate w conf = None \<longrightarrow>
      MatchString_alnum_20_128 (PrometheusAuthUser conf) \<and>
      MatchString_alnum_20_128 (PrometheusAuthPass conf)"
    by (simp add: Config_Validate_None_iff before_defs metrics_ok_def)
  have ten: "\<not> MatchString_alnum_20_128 (PrometheusAuthUser conf)"
    if "length (PrometheusAuthUser conf) = 10"
    using that by (simp add: MatchString_alnum_20_128_def)
  have b: "PrometheusEnabled conf \<and> length (PrometheusAuthUser conf) = 10 \<longrightarrow>
      Config_Validate w conf \<noteq> None"
  proof (intro impI notI, elim conjE)
    assume h: "PrometheusEnabled conf" "length (PrometheusAuthUser conf) = 10"
      "Config_Validate w conf = None"
    with a have "MatchString_alnum_20_128 (PrometheusAuthUser conf)" by blast
    with ten [OF h(2)] show False by contradiction
  qed
  have c: "before_metrics w conf \<and> PrometheusEnabled conf \<and>
      length (PrometheusAuthUser conf) = 10 \<longrightarrow>
      Config_Validate w conf = Some PrometheusUserPattern"
  proof (intro impI, elim conjE)
    assume h: "before_metrics w conf" "PrometheusEnabled conf"
      "length (PrometheusAuthUser conf) = 10"
    from h(3) have "PrometheusAuthUser conf \<noteq> []" by auto
    with h(2) ten [OF h(3)] have "check_metrics conf = Some PrometheusUserPattern"
      by (simp add: check_metrics_def validate_Prometheus_def)
    with h(1) show "Config_Validate w conf = Some PrometheusUserPattern"
      by (simp add: Config_Validate_eq documented_checks_def before_defs stage_checks)
  qed
  have d: "PrometheusEnabled conf \<and>
      length (PrometheusAuthUser conf) = 24 \<and> list_all is_alnum (PrometheusAuthUser conf) \<and>
      length (PrometheusAuthPass conf) = 24 \<and> list_all is_alnum (PrometheusAuthPass conf) \<longrightarrow>
      check_metrics conf = None \<and>
      Config_Validate w conf = Config_Validate w (conf\<lparr>PrometheusEnabled := False\<rparr>)"
  proof (intro impI)
    assume h: "PrometheusEnabled conf \<and>
      length (PrometheusAuthUser conf) = 24 \<and> list_all is_alnum (PrometheusAuthUser conf) \<and>
      length (PrometheusAuthPass conf) = 24 \<and> list_all is_alnum (PrometheusAuthPass conf)"
    then have m: "check_metrics conf = None"
      by (simp add: check_metrics_None metrics_ok_def MatchString_alnum_20_128_def)
    then have "(documented_checks w conf)[7 := None] = documented_checks w conf"
      by (simp add: documented_checks_def)
    with m show "check_metrics conf = None \<and>
        Config_Validate w conf = Config_Validate w (conf\<lparr>PrometheusEnabled := False\<rparr>)"
      by (simp add: Config_Validate_eq checks_metrics_disabled)
  qed
  have e: "\<not> PrometheusEnabled conf \<longrightarrow>
      Config_Validate w (conf\<lparr>PrometheusAuthUser := u, PrometheusAuthPass := p\<rparr>) =
      Config_Validate w conf"
    by (simp add: Config_Validate_eq checks_credentials_unused)
  from a b c d e show ?thesis by blast
qed

theorem C5_metrics_auth_witness:
  "Config_Validate (example_World example_roster) example_Config = None \<and>
   MatchString_alnum_20_128 (PrometheusAuthUser example_Config) \<and>
   MatchString_alnum_20_128 (PrometheusAuthPass example_Config) \<and>
   length (PrometheusAuthUser example_Config) = 24 \<and>
   length (PrometheusAuthPass example_Config) = 24 \<and>
   Config_Validate (example_World example_roster) (example_Config\<lparr>PrometheusEnabled := False\<rparr>) = None \<and>
   before_metrics (example_World example_roster) (example_Config\<lparr>PrometheusAuthUser := ''abcdefghij''\<rparr>) \<and>
   Config_Validate (example_World example_roster) (example_Config\<lparr>PrometheusAuthUser := ''abcdefghij''\<rparr>)
     = Some PrometheusUserPattern \<and>
   Config_Validate (example_World example_roster)
     (example_Config\<lparr>PrometheusEnabled := False, PrometheusAuthUser := ''abcdefghij'',
        PrometheusAuthPass := []\<rparr>) = None"
proof -
  let ?w = "example_World example_roster"
  let ?short = "example_Config\<lparr>PrometheusAuthUser := ''abcdefghij''\<rparr>"
  let ?off = "example_Config\<lparr>PrometheusEnabled := False\<rparr>"
  have ok: "Config_Validate ?w example_Config = None"
    by (simp add: Config_Validate_None_iff example_before_roster
        check_roster_loaded [OF example_loaded(1-3)] example_loaded(4)
        check_roster_entries_None_iff example_roster_valid example_roster_addresses)
       (simp add: example_roster_def passwords_def)
  have h: "PrometheusEnabled example_Config"
    "length (PrometheusAuthUser example_Config) = 24"
    "list_all is_alnum (PrometheusAuthUser example_Config)"
    "length (PrometheusAuthPass example_Config) = 24"
    "list_all is_alnum (PrometheusAuthPass example_Config)"
    by (simp_all add: example_defs is_alnum_def ord_def)
  from C5_metrics_auth [of example_Config ?w] h ok
  have m: "MatchString_alnum_20_128 (PrometheusAuthUser example_Config)"
    "MatchString_alnum_20_128 (PrometheusAuthPass example_Config)"
    and off: "Config_Validate ?w ?off = None"
    by simp_all
  have s: "before_metrics ?w ?short" "PrometheusEnabled ?short"
    "length (PrometheusAuthUser ?short) = 10"
    by (simp_all add: before_defs pred_defs example_defs)
  from C5_metrics_auth [of ?short ?w] s
  have short: "Config_Validate ?w ?short = Some PrometheusUserPattern"
    by blast
  have "\<not> PrometheusEnabled ?off" by simp
  with C5_metrics_auth [where conf = ?off and w = ?w and u = "''abcdefghij''" and p = "[]"] off
  have unused: "Config_Validate ?w
      (example_Config\<lparr>PrometheusEnabled := False, PrometheusAuthUser := ''abcdefghij'',
         PrometheusAuthPass := []\<rparr>) = None"
    by simp
  from ok m h off s short unused show ?thesis by simp
qed

text \<open>
  C6. When every check before it passes (port, TLS files, backends, at least one backend,
  upload memory) and the deprecated field \<^verbatim>\<open>encryptionkey\<close> is not empty,
  \<^verbatim>\<open>Config.Validate\<close> returns the deprecation error, whatever the rest of the
  configuration is.
\<close>

theorem C6_deprecated_key:
  assumes "before_EncryptionKey w conf" and "EncryptionKey conf \<noteq> []"
  shows "Config_Validate w conf = Some EncryptionKeyDeprecated"
  using assms
  by (simp add: Config_Validate_eq documented_checks_def before_defs stage_checks
      check_EncryptionKey_def)

theorem C6_deprecated_key_witness:
  "before_EncryptionKey (example_World example_roster)
     (example_Config\<lparr>EncryptionKey := ''0123456789abcdef''\<rparr>) \<and>
   EncryptionKey (example_Config\<lparr>EncryptionKey := ''0123456789abcdef''\<rparr>) \<noteq> [] \<and>
   Config_Validate (example_World example_roster)
     (example_Config\<lparr>EncryptionKey := ''0123456789abcdef''\<rparr>) = Some EncryptionKeyDeprecated"
proof -
  let ?w = "example_World example_roster"
  let ?c = "example_Config\<lparr>EncryptionKey := ''0123456789abcdef''\<rparr>"
  have h: "before_EncryptionKey ?w ?c" "EncryptionKey ?c \<noteq> []"
    by (simp_all add: before_defs pred_defs example_defs)
  from h C6_deprecated_key [OF h] show ?thesis by simp
qed

text \<open>
  C7. When every check before the recipients passes: with no recipient in either list
  \<^verbatim>\<open>Config.Validate\<close> returns the error asking for at least one key; with an entry of
  \<^verbatim>\<open>age-id\<close> that does not parse as a native recipient, or an entry of \<^verbatim>\<open>age-ssh\<close> that does
  not parse as an SSH recipient, it returns a parse error naming such an entry; and it
  succeeds only if there is a recipient and every entry parses.
\<close>

theorem C7_recipients:
  assumes "before_recipients w conf"
  shows "(no_recipient conf \<longrightarrow> Config_Validate w conf = Some NoAgeKey) \<and>
         (\<not> recipients_parse w conf \<longrightarrow>
            (\<exists>r err. r \<in> set (AgeID (Encryption conf)) \<and>
                age_ParseX25519Recipient w r = Some err \<and>
                Config_Validate w conf = Some (AgeIDParse r err)) \<or>
            (\<exists>r err. r \<in> set (AgeSSH (Encryption conf)) \<and>
                agessh_ParseRecipient w r = Some err \<and>
                Config_Validate w conf = Some (AgeSSHParse r err))) \<and>
         (Config_Validate w conf = None \<longrightarrow> \<not> no_recipient conf \<and> recipients_parse w conf)"
proof -
  from assms have v: "Config_Validate w conf =
      first_error [check_recipients w conf, check_metrics conf, check_roster w conf]"
    by (simp add: Config_Validate_eq documented_checks_def before_defs stage_checks)
  have a: "no_recipient conf \<longrightarrow> Config_Validate w conf = Some NoAgeKey"
    by (simp add: v check_recipients_def)
  have c: "Config_Validate w conf = None \<longrightarrow> \<not> no_recipient conf \<and> recipients_parse w conf"
    by (simp add: v first_error_None_iff check_recipients_None)
  have b: "(\<exists>r err. r \<in> set (AgeID (Encryption conf)) \<and>
                age_ParseX25519Recipient w r = Some err \<and>
                Config_Validate w conf = Some (AgeIDParse r err)) \<or>
            (\<exists>r err. r \<in> set (AgeSSH (Encryption conf)) \<and>
                agessh_ParseRecipient w r = Some err \<and>
                Config_Validate w conf = Some (AgeSSHParse r err))"
    if np: "\<not> recipients_parse w conf"
  proof -
    from np have "\<not> no_recipient conf"
      by (auto simp: no_recipient_def recipients_parse_def)
    with np have "check_recipients w conf \<noteq> None"
      by (simp add: check_recipients_None)
    then obtain e where e: "check_recipients w conf = Some e" by auto
    with \<open>\<not> no_recipient conf\<close> have "e \<noteq> NoAgeKey"
      by (auto simp: check_recipients_def dest!: first_error_Some_ex recipient_loops_Some)
    moreover from e have "Config_Validate w conf = Some e"
      by (simp add: v)
    ultimately show ?thesis
      using check_recipients_Some [OF e] by auto
  qed
  from a b c show ?thesis by blast
qed

theorem C7_recipients_witness:
  "before_recipients (example_World example_roster)
     (example_Config\<lparr>Encryption := \<lparr>AgeID = [], AgeSSH = []\<rparr>\<rparr>) \<and>
   no_recipient (example_Config\<lparr>Encryption := \<lparr>AgeID = [], AgeSSH = []\<rparr>\<rparr>) \<and>
   Config_Validate (example_World example_roster)
     (example_Config\<lparr>Encryption := \<lparr>AgeID = [], AgeSSH = []\<rparr>\<rparr>) = Some NoAgeKey \<and>
   before_recipients (example_World example_roster)
     (example_Config\<lparr>Encryption := \<lparr>AgeID = [''age1recipient'', ''AGE-SECRET-KEY-1''], AgeSSH = []\<rparr>\<rparr>) \<and>
   \<not> recipients_parse (example_World example_roster)
     (example_Config\<lparr>Encryption := \<lparr>AgeID = [''age1recipient'', ''AGE-SECRET-KEY-1''], AgeSSH = []\<rparr>\<rparr>) \<and>
   Config_Validate (example_World example_roster)
     (example_Config\<lparr>Encryption := \<lparr>AgeID = [''age1recipient'', ''AGE-SECRET-KEY-1''], AgeSSH = []\<rparr>\<rparr>)
     = Some (AgeIDParse ''AGE-SECRET-KEY-1'' ''malformed recipient'')"
proof -
  let ?w = "example_World example_roster"
  let ?c = "example_Config\<lparr>Encryption := \<lparr>AgeID = [], AgeSSH = []\<rparr>\<rparr>"
  let ?d = "example_Config\<lparr>Encryption :=
              \<lparr>AgeID = [''age1recipient'', ''AGE-SECRET-KEY-1''], AgeSSH = []\<rparr>\<rparr>"
  have c: "before_recipients ?w ?c" "no_recipient ?c"
    by (simp_all add: before_defs pred_defs example_defs)
  have d: "before_recipients ?w ?d" "\<not> recipients_parse ?w ?d"
    by (simp_all add: before_defs pred_defs example_defs)
  from C7_recipients [OF c(1)] c(2) have 1: "Config_Validate ?w ?c = Some NoAgeKey"
    by blast
  from C7_recipients [OF d(1)] d(2)
  have "(\<exists>r err. r \<in> set (AgeID (Encryption ?d)) \<and> age_ParseX25519Recipient ?w r = Some err \<and>
            Config_Validate ?w ?d = Some (AgeIDParse r err)) \<or>
        (\<exists>r err. r \<in> set (AgeSSH (Encryption ?d)) \<and> agessh_ParseRecipient ?w r = Some err \<and>
            Config_Validate ?w ?d = Some (AgeSSHParse r err))"
    by blast
  then have 2: "Config_Validate ?w ?d = Some (AgeIDParse ''AGE-SECRET-KEY-1'' ''malformed recipient'')"
    by (auto simp: example_defs split: if_splits)
  from c d 1 2 show ?thesis by simp
qed

text \<open>
  C8. A negative port makes \<^verbatim>\<open>Config.Validate\<close> return the error of a negative port, and a
  port above 65535 the error of a port too large, whatever the rest of the configuration
  is; for a port from 0 to 65535, both bounds included, the port check passes and
  \<^verbatim>\<open>Config.Validate\<close> returns neither of the two port errors.
\<close>

theorem C8_port_range:
  "(ListenPort conf < 0 \<longrightarrow> Config_Validate w conf = Some PortNegative) \<and>
   (ListenPort conf > 65535 \<longrightarrow> Config_Validate w conf = Some PortTooLarge) \<and>
   (0 \<le> ListenPort conf \<and> ListenPort conf \<le> 65535 \<longrightarrow>
      check_port conf = None \<and>
      Config_Validate w conf \<noteq> Some PortNegative \<and>
      Config_Validate w conf \<noteq> Some PortTooLarge)"
proof -
  have a: "ListenPort conf < 0 \<longrightarrow> Config_Validate w conf = Some PortNegative"
    by (simp add: Config_Validate_def)
  have b: "ListenPort conf > 65535 \<longrightarrow> Config_Validate w conf = Some PortTooLarge"
    by (simp add: Config_Validate_def)
  have c: "check_port conf = None \<and> Config_Validate w conf \<noteq> Some PortNegative \<and>
      Config_Validate w conf \<noteq> Some PortTooLarge"
    if r: "0 \<le> ListenPort conf \<and> ListenPort conf \<le> 65535"
  proof -
    from r have p: "check_port conf = None"
      by (simp add: check_port_None port_ok_def)
    then have "Config_Validate w conf = first_error (tl (documented_checks w conf))"
      by (simp add: Config_Validate_eq documented_checks_def)
    with p show ?thesis
      using later_checks_not_port [of w conf] by auto
  qed
  from a b c show ?thesis by blast
qed

theorem C8_port_range_witness:
  "Config_Validate (example_World example_roster) (example_Config\<lparr>ListenPort := - 1\<rparr>)
     = Some PortNegative \<and>
   Config_Validate (example_World example_roster) (example_Config\<lparr>ListenPort := 65536\<rparr>)
     = Some PortTooLarge \<and>
   check_port (example_Config\<lparr>ListenPort := 0\<rparr>) = None \<and>
   Config_Validate (example_World example_roster) (example_Config\<lparr>ListenPort := 0\<rparr>)
     \<noteq> Some PortNegative \<and>
   check_port (example_Config\<lparr>ListenPort := 65535\<rparr>) = None \<and>
   Config_Validate (example_World example_roster) (example_Config\<lparr>ListenPort := 65535\<rparr>)
     \<noteq> Some PortTooLarge"
  using C8_port_range [of "example_Config\<lparr>ListenPort := - 1\<rparr>" "example_World example_roster"]
    C8_port_range [of "example_Config\<lparr>ListenPort := 65536\<rparr>" "example_World example_roster"]
    C8_port_range [of "example_Config\<lparr>ListenPort := 0\<rparr>" "example_World example_roster"]
    C8_port_range [of "example_Config\<lparr>ListenPort := 65535\<rparr>" "example_World example_roster"]
  by simp

text \<open>
  C9. \<^verbatim>\<open>ClientConfig.Name\<close> always returns a non-empty string. It is not a pure accessor:
  on an entry with an empty name it returns \<^verbatim>\<open>Unnamed Client\<close> and stores it in
  \<^verbatim>\<open>ClientName\<close>, leaving the other fields as they were (an entry with a name is returned
  unchanged). So an entry with an empty name, which \<^verbatim>\<open>Validate\<close> rejects for having no name,
  is no longer rejected for that once \<^verbatim>\<open>Name\<close> has been called on it.
\<close>

theorem C9_Name_not_pure:
  "fst (Name client) \<noteq> [] \<and>
   (ClientName client \<noteq> [] \<longrightarrow> Name client = (ClientName client, client)) \<and>
   (ClientName client = [] \<longrightarrow>
      Name client = (''Unnamed Client'', client\<lparr>ClientName := ''Unnamed Client''\<rparr>) \<and>
      snd (Name client) \<noteq> client \<and>
      IPv4Addr (snd (Name client)) = IPv4Addr client \<and>
      IPv6Addr (snd (Name client)) = IPv6Addr client \<and>
      Password (snd (Name client)) = Password client \<and>
      ClientConfig_Validate nt client = Some ClientNoName \<and>
      ClientConfig_Validate nt (snd (Name client)) \<noteq> Some ClientNoName)"
proof -
  have n1: "fst (Name client) \<noteq> []"
    by (simp add: Name_def)
  have n2: "ClientName client \<noteq> [] \<longrightarrow> Name client = (ClientName client, client)"
    by (simp add: Name_def)
  have n3: "ClientName client = [] \<longrightarrow>
      Name client = (''Unnamed Client'', client\<lparr>ClientName := ''Unnamed Client''\<rparr>)"
    by (simp add: Name_def)
  have f: "IPv4Addr (snd (Name client)) = IPv4Addr client"
    "IPv6Addr (snd (Name client)) = IPv6Addr client"
    "Password (snd (Name client)) = Password client"
    by (simp_all add: Name_def)
  have v1: "ClientName client = [] \<longrightarrow> ClientConfig_Validate nt client = Some ClientNoName"
    by (simp add: ClientConfig_Validate_def)
  have "ClientName (snd (Name client)) \<noteq> []"
    by (simp add: Name_def)
  then have v2: "ClientConfig_Validate nt (snd (Name client)) \<noteq> Some ClientNoName"
    by (rule ClientConfig_Validate_named)
  have d: "ClientName client = [] \<longrightarrow> snd (Name client) \<noteq> client"
  proof
    assume e: "ClientName client = []"
    show "snd (Name client) \<noteq> client"
    proof
      assume "snd (Name client) = client"
      then have "ClientName (snd (Name client)) = []" using e by simp
      then show False using e by (simp add: Name_snd)
    qed
  qed
  from n1 n2 n3 f v1 v2 d show ?thesis by blast
qed

theorem C9_Name_not_pure_witness:
  "Name \<lparr>ClientName = [], IPv4Addr = [''10.0.0.1''], IPv6Addr = [], Password = []\<rparr> =
     (''Unnamed Client'',
      \<lparr>ClientName = ''Unnamed Client'', IPv4Addr = [''10.0.0.1''], IPv6Addr = [], Password = []\<rparr>) \<and>
   ClientConfig_Validate go_net
     \<lparr>ClientName = [], IPv4Addr = [''10.0.0.1''], IPv6Addr = [], Password = []\<rparr>
     = Some ClientNoName \<and>
   ClientConfig_Validate go_net
     (snd (Name \<lparr>ClientName = [], IPv4Addr = [''10.0.0.1''], IPv6Addr = [], Password = []\<rparr>))
     \<noteq> Some ClientNoName"
  using C9_Name_not_pure
    [of "\<lparr>ClientName = [], IPv4Addr = [''10.0.0.1''], IPv6Addr = [], Password = []\<rparr>" go_net]
  by (simp add: Name_def)

text \<open>
  C10. The duplicate-IP check compares the printed forms of all addresses in the
  concatenation of all entries' IPv6 and IPv4 lists. So, for the roster the client file
  decodes to: a printed address that occurs twice in the concatenation makes
  \<^verbatim>\<open>Config.Validate\<close> fail, in particular one that occurs twice within a single entry's own
  lists; and when everything else is in order (the earlier checks, every entry on its
  own, distinct names and passwords) the error returned is the one for a reused address.
\<close>

theorem C10_duplicate_IP_anywhere:
  assumes "ClientFile conf \<noteq> []"
    and "ioutil_ReadFile w (ClientFile conf) = Inr fc"
    and "yaml_Unmarshal w fc = Inr clients"
  shows "(\<not> distinct (roster_addresses (net w) clients) \<longrightarrow> Config_Validate w conf \<noteq> None) \<and>
         (list_ex (\<lambda>c. \<not> distinct (client_addresses (net w) c)) clients \<longrightarrow>
            Config_Validate w conf \<noteq> None) \<and>
         (before_roster w conf \<and> clients \<noteq> [] \<and>
          list_all (\<lambda>c. ClientConfig_Validate (net w) c = None) clients \<and>
          distinct (map ClientName clients) \<and> distinct (passwords clients) \<and>
          \<not> distinct (roster_addresses (net w) clients) \<longrightarrow>
            (\<exists>name k a. Config_Validate w conf = Some (ClientReusesIP name k a)))"
proof -
  have r: "check_roster w conf = check_roster_entries (net w) clients"
    using assms by (rule check_roster_loaded)
  have a: "\<not> distinct (roster_addresses (net w) clients) \<longrightarrow> Config_Validate w conf \<noteq> None"
    by (simp add: Config_Validate_None_iff r check_roster_entries_None_iff)
  have b: "list_ex (\<lambda>c. \<not> distinct (client_addresses (net w) c)) clients \<longrightarrow>
      Config_Validate w conf \<noteq> None"
    using a entry_not_distinct [of "net w" clients] by blast
  have c: "\<exists>name k a. Config_Validate w conf = Some (ClientReusesIP name k a)"
    if h: "before_roster w conf \<and> clients \<noteq> [] \<and>
          list_all (\<lambda>c. ClientConfig_Validate (net w) c = None) clients \<and>
          distinct (map ClientName clients) \<and> distinct (passwords clients) \<and>
          \<not> distinct (roster_addresses (net w) clients)"
  proof -
    from h have v: "validate_clients (net w) clients = None"
      by (simp add: validate_clients_None_iff)
    from h have "list_all (\<lambda>c. ClientConfig_Validate (net w) c = None) clients"
      by blast
    then have n: "map (\<lambda>c. fst (Name c)) clients = map ClientName clients"
      by (rule valid_names)
    from h v have cv: "Config_Validate w conf = check_duplicates (net w) 0 {} {} {} clients"
      by (simp add: Config_Validate_before_roster r check_roster_entries_def first_error_single)
    from h n have "check_duplicates (net w) 0 {} {} {} clients \<noteq> None"
      by (simp add: check_duplicates_None_iff)
    then obtain e where e: "check_duplicates (net w) 0 {} {} {} clients = Some e" by auto
    from check_duplicates_ReusesIP [OF e] h n
    have "\<exists>name k a. e = ClientReusesIP name k a" by simp
    with e cv show ?thesis by auto
  qed
  from a b c show ?thesis by blast
qed

theorem C10_duplicate_IP_anywhere_witness:
  "client_addresses go_net (hd spelled_twice_roster) = [''::1'', ''::1''] \<and>
   list_ex (\<lambda>c. \<not> distinct (client_addresses go_net c)) spelled_twice_roster \<and>
   Config_Validate (example_World spelled_twice_roster) example_Config \<noteq> None"
proof -
  have a: "client_addresses go_net (hd spelled_twice_roster) = [''::1'', ''::1'']"
    by (simp add: spelled_twice_roster_def client_defs go_net_examples)
  then have b: "list_ex (\<lambda>c. \<not> distinct (client_addresses go_net c)) spelled_twice_roster"
    by (simp add: spelled_twice_roster_def)
  from C10_duplicate_IP_anywhere [OF example_loaded(1) example_loaded(2) [of spelled_twice_roster]
      example_loaded(3) [of spelled_twice_roster "''clients''"]] b
  have "Config_Validate (example_World spelled_twice_roster) example_Config \<noteq> None"
    by (simp add: example_loaded(4))
  with a b show ?thesis by simp
qed

end
